theory Spec2Isabelle
  imports Main
begin

section \<open>The document and the jQuery operations the item classes use\<close>

text \<open>
  The item classes of \<^verbatim>\<open>oa_container_item.js\<close> keep no state of their own: every
  handler reads and writes the page through jQuery. The page is modelled as the list
  of its elements in document order. An element is named by its position in that
  list, and its parent by the parent's position; document order puts a parent before
  its children, so a parent link that does not point backwards is read as no parent.
  A jQuery object is the list of the positions it matches, in document order.
  \<open>el_value\<close> is the element's current value, which \<^verbatim>\<open>.val()\<close> and
  \<^verbatim>\<open>.prop('value')\<close> read; the \<^verbatim>\<open>value\<close> attribute is an attribute like the
  others, and \<open>el_text\<close> is the text \<^verbatim>\<open>.text(s)\<close> writes.
\<close>

record element =
  el_parent :: "nat option"
  el_tag :: string
  el_classes :: "string set"
  el_attrs :: "(string \<times> string) list"
  el_value :: string
  el_text :: string

type_synonym dom = "element list"

type_synonym jq = "nat list"

definition parent_of :: "dom \<Rightarrow> nat \<Rightarrow> nat option" where
  "parent_of d i =
     (if i < length d
      then (case el_parent (d ! i) of
              None \<Rightarrow> None
            | Some p \<Rightarrow> if p < i then Some p else None)
      else None)"

function ancestors :: "dom \<Rightarrow> nat \<Rightarrow> nat list" where
  "ancestors d i =
     (case parent_of d i of
        None \<Rightarrow> []
      | Some p \<Rightarrow> p # ancestors d p)"
  by pat_completeness auto
termination
  by (relation "measure (\<lambda>(d, i). i)")
    (auto simp: parent_of_def split: if_splits option.splits)

declare ancestors.simps [simp del]

text \<open>A selector is a test on one element: a class, an attribute value, a tag.\<close>

definition attr_of :: "element \<Rightarrow> string \<Rightarrow> string option" where
  \<comment> \<open>the value of an attribute, \<open>None\<close> when the element does not carry it\<close>
  "attr_of e name = map_of (el_attrs e) name"

definition set_attr :: "string \<Rightarrow> string \<Rightarrow> element \<Rightarrow> element" where
  "set_attr name s e = e\<lparr>el_attrs := (name, s) # filter (\<lambda>kv. fst kv \<noteq> name) (el_attrs e)\<rparr>"

definition has_class :: "string \<Rightarrow> element \<Rightarrow> bool" where
  "has_class c e = (c \<in> el_classes e)"

definition attr_is :: "string \<Rightarrow> string \<Rightarrow> element \<Rightarrow> bool" where
  \<comment> \<open>\<^verbatim>\<open>*[name='v']\<close>\<close>
  "attr_is name v e = (attr_of e name = Some v)"

definition tag_is :: "string \<Rightarrow> element \<Rightarrow> bool" where
  "tag_is t e = (el_tag e = t)"

definition jq_parent :: "dom \<Rightarrow> jq \<Rightarrow> jq" where
  \<comment> \<open>\<^verbatim>\<open>.parent()\<close>: the parents of the matched elements, each once\<close>
  "jq_parent d sel = filter (\<lambda>p. \<exists>i \<in> set sel. parent_of d i = Some p) [0..<length d]"

definition jq_find :: "dom \<Rightarrow> jq \<Rightarrow> (element \<Rightarrow> bool) \<Rightarrow> jq" where
  \<comment> \<open>\<^verbatim>\<open>.find(s)\<close> and \<^verbatim>\<open>$(s, context)\<close>: the descendants of the matched
      elements that pass the selector\<close>
  "jq_find d ctx P =
     filter (\<lambda>j. P (d ! j) \<and> (\<exists>a \<in> set (ancestors d j). a \<in> set ctx)) [0..<length d]"

definition closest1 :: "dom \<Rightarrow> (element \<Rightarrow> bool) \<Rightarrow> nat \<Rightarrow> nat option" where
  "closest1 d P i = find (\<lambda>a. a < length d \<and> P (d ! a)) (i # ancestors d i)"

definition jq_closest :: "dom \<Rightarrow> jq \<Rightarrow> (element \<Rightarrow> bool) \<Rightarrow> jq" where
  \<comment> \<open>\<^verbatim>\<open>.closest(s)\<close>: for each matched element the nearest of itself and its
      ancestors that passes the selector\<close>
  "jq_closest d sel P = filter (\<lambda>a. \<exists>i \<in> set sel. closest1 d P i = Some a) [0..<length d]"

definition jq_first :: "jq \<Rightarrow> jq" where
  "jq_first sel = take 1 sel"

definition jq_attr :: "dom \<Rightarrow> jq \<Rightarrow> string \<Rightarrow> string option" where
  \<comment> \<open>\<^verbatim>\<open>.attr(name)\<close>: the attribute of the first matched element, undefined
      (\<open>None\<close>) when nothing is matched or the attribute is absent\<close>
  "jq_attr d sel name =
     (case sel of
        [] \<Rightarrow> None
      | i # _ \<Rightarrow> if i < length d then attr_of (d ! i) name else None)"

definition jq_val :: "dom \<Rightarrow> jq \<Rightarrow> string option" where
  \<comment> \<open>\<^verbatim>\<open>.val()\<close>: the value of the first matched element, undefined when nothing
      is matched\<close>
  "jq_val d sel =
     (case sel of
        [] \<Rightarrow> None
      | i # _ \<Rightarrow> if i < length d then Some (el_value (d ! i)) else None)"

definition dom_update :: "dom \<Rightarrow> jq \<Rightarrow> (element \<Rightarrow> element) \<Rightarrow> dom" where
  "dom_update d sel f = map (\<lambda>i. if i \<in> set sel then f (d ! i) else d ! i) [0..<length d]"

definition jq_set_attr :: "dom \<Rightarrow> jq \<Rightarrow> string \<Rightarrow> string option \<Rightarrow> dom" where
  \<comment> \<open>\<^verbatim>\<open>.attr(name, v)\<close> on every matched element; with \<^verbatim>\<open>v\<close> undefined jQuery
      sets nothing and returns the same object\<close>
  "jq_set_attr d sel name v =
     (case v of
        None \<Rightarrow> d
      | Some s \<Rightarrow> dom_update d sel (set_attr name s))"

definition jq_hasClass :: "dom \<Rightarrow> jq \<Rightarrow> string \<Rightarrow> bool" where
  \<comment> \<open>\<^verbatim>\<open>.hasClass(c)\<close>: some matched element carries the class\<close>
  "jq_hasClass d sel c = (\<exists>i \<in> set sel. i < length d \<and> has_class c (d ! i))"

definition jq_addClass :: "dom \<Rightarrow> jq \<Rightarrow> string \<Rightarrow> dom" where
  "jq_addClass d sel c = dom_update d sel (\<lambda>e. e\<lparr>el_classes := insert c (el_classes e)\<rparr>)"

definition jq_removeClass :: "dom \<Rightarrow> jq \<Rightarrow> string \<Rightarrow> dom" where
  "jq_removeClass d sel c = dom_update d sel (\<lambda>e. e\<lparr>el_classes := el_classes e - {c}\<rparr>)"

definition jq_children :: "dom \<Rightarrow> jq \<Rightarrow> jq" where
  "jq_children d sel = filter (\<lambda>j. \<exists>i \<in> set sel. parent_of d j = Some i) [0..<length d]"

definition jq_set_text :: "dom \<Rightarrow> jq \<Rightarrow> string option \<Rightarrow> dom" where
  \<comment> \<open>\<^verbatim>\<open>.text(s)\<close>: every matched element is emptied (its children leave the
      document) and gets the text; with \<^verbatim>\<open>s\<close> undefined nothing is set\<close>
  "jq_set_text d sel v =
     (case v of
        None \<Rightarrow> d
      | Some s \<Rightarrow>
          dom_update
            (dom_update d (jq_children d sel) (\<lambda>e. e\<lparr>el_parent := None\<rparr>))
            sel (\<lambda>e. e\<lparr>el_text := s\<rparr>))"

section \<open>Numbers as strings\<close>

text \<open>
  JavaScript writes a non-negative integer in decimal, without leading zeros, both in
  \<^verbatim>\<open>index.toString()\<close> and when a number is joined to a string.
\<close>

definition digit_char :: "nat \<Rightarrow> char" where
  "digit_char n = ''0123456789'' ! n"

function show_nat :: "nat \<Rightarrow> string" where
  "show_nat n = (if n < 10 then [digit_char n] else show_nat (n div 10) @ [digit_char (n mod 10)])"
  by pat_completeness auto
termination
  by (relation "measure id") auto

declare show_nat.simps [simp del]

definition read_nat :: "string \<Rightarrow> nat" where
  "read_nat s = foldl (\<lambda>a c. 10 * a + (of_char c - 48)) 0 s"

section \<open>ItemUtilities.createUniqueName\<close>

text \<open>
  \<^verbatim>\<open>
  createUniqueName: function(selector, nameAttribute) {
      var index = 0;
      while (index <= selector.length) {
          if (selector.parent().find("*[" + nameAttribute + "='" + index + "']").length === 0) {
              return index.toString();
          }
          index++;
      }
      return index.toString();
  }
  \<close>
  The loop is the recursion on \<open>index\<close>; it stops at the latest when \<open>index\<close> passes
  the number of matched elements.
\<close>

function createUniqueName_loop :: "dom \<Rightarrow> jq \<Rightarrow> string \<Rightarrow> nat \<Rightarrow> string" where
  "createUniqueName_loop d selector nameAttribute index =
     (if index \<le> length selector
      then (if length (jq_find d (jq_parent d selector) (attr_is nameAttribute (show_nat index))) = 0
            then show_nat index
            else createUniqueName_loop d selector nameAttribute (index + 1))
      else show_nat index)"
  by pat_completeness auto
termination
  by (relation "measure (\<lambda>(d, selector, nameAttribute, index). length selector + 1 - index)") auto

declare createUniqueName_loop.simps [simp del]

definition createUniqueName :: "dom \<Rightarrow> jq \<Rightarrow> string \<Rightarrow> string" where
  "createUniqueName d selector nameAttribute = createUniqueName_loop d selector nameAttribute 0"

text \<open>
  The identifiers in use among the matched elements, and what it means for the matched
  elements to be a sibling set of the attribute: they share one parent, and every value
  of the attribute found below that parent is the identifier of one of them (an element
  nested in a sibling may repeat its owner's identifier, as an option repeats the
  \<^verbatim>\<open>data-criterion\<close> of its criterion).
\<close>

definition sibling_ids :: "dom \<Rightarrow> jq \<Rightarrow> string \<Rightarrow> string set" where
  "sibling_ids d selector nameAttribute =
     {v. \<exists>s \<in> set selector. s < length d \<and> attr_of (d ! s) nameAttribute = Some v}"

definition sibling_set :: "dom \<Rightarrow> jq \<Rightarrow> string \<Rightarrow> bool" where
  "sibling_set d selector nameAttribute =
     (\<exists>p. (\<forall>s \<in> set selector. parent_of d s = Some p) \<and>
          (\<forall>j < length d. p \<in> set (ancestors d j) \<longrightarrow>
             (\<forall>v. attr_of (d ! j) nameAttribute = Some v \<longrightarrow>
                  v \<in> sibling_ids d selector nameAttribute)))"


section \<open>JavaScript values\<close>

text \<open>
  A value that may be \<^verbatim>\<open>undefined\<close> is an option (\<open>None\<close> is \<^verbatim>\<open>undefined\<close>); a
  number that may be \<^verbatim>\<open>NaN\<close> is an \<open>int option\<close> (\<open>None\<close> is \<^verbatim>\<open>NaN\<close>). The
  fields of a notification's payload are values of \<open>jsval\<close>.
\<close>

datatype jsval = Undefined | Str string | Num int | NaN

definition of_str :: "string option \<Rightarrow> jsval" where
  "of_str v = (case v of None \<Rightarrow> Undefined | Some s \<Rightarrow> Str s)"

definition of_num :: "int option \<Rightarrow> jsval" where
  "of_num v = (case v of None \<Rightarrow> NaN | Some n \<Rightarrow> Num n)"

type_synonym payload = "(string \<times> jsval) list"

text \<open>
  The notifier is an external collaborator: \<^verbatim>\<open>notificationFired(name, payload)\<close> runs
  the subscribers, which may read and change the page. It is a parameter of every
  handler that notifies.
\<close>

type_synonym notifier = "string \<Rightarrow> payload \<Rightarrow> dom \<Rightarrow> dom"

definition js_str :: "string option \<Rightarrow> string" where
  \<comment> \<open>a value joined to a string with \<^verbatim>\<open>+\<close>\<close>
  "js_str v = (case v of None \<Rightarrow> ''undefined'' | Some s \<Rightarrow> s)"

definition show_int :: "int \<Rightarrow> string" where
  "show_int n = (if n < 0 then CHR ''-'' # show_nat (nat (- n)) else show_nat (nat n))"

definition is_digit :: "char \<Rightarrow> bool" where
  "is_digit c = (c \<in> set ''0123456789'')"

definition all_digits :: "string \<Rightarrow> bool" where
  "all_digits s = (s \<noteq> [] \<and> list_all is_digit s)"

subsection \<open>isNaN on a string\<close>

text \<open>
  \<^verbatim>\<open>isNaN(points)\<close> converts its argument to a number first. \<^verbatim>\<open>undefined\<close> converts
  to \<^verbatim>\<open>NaN\<close>; a string converts to a number exactly when, with white space trimmed,
  it is empty, a signed decimal literal (digits with an optional fraction and an
  optional exponent, or \<^verbatim>\<open>Infinity\<close>) or an unsigned hexadecimal, octal or binary
  integer literal. Characters are single bytes here, so the white space is the
  Latin-1 part of JavaScript's.
\<close>

definition is_space :: "char \<Rightarrow> bool" where
  "is_space c = (c \<in> set [CHR 0x09, CHR 0x0A, CHR 0x0B, CHR 0x0C, CHR 0x0D, CHR 0x20, CHR 0xA0])"

definition trim :: "string \<Rightarrow> string" where
  "trim s = rev (dropWhile is_space (rev (dropWhile is_space s)))"

definition exponent_part :: "string \<Rightarrow> bool" where
  \<comment> \<open>what may follow the digits of a decimal literal: nothing, or an exponent\<close>
  "exponent_part s =
     (case s of
        [] \<Rightarrow> True
      | c # r \<Rightarrow>
          (c = CHR ''e'' \<or> c = CHR ''E'') \<and>
          (case r of
             [] \<Rightarrow> False
           | x # t \<Rightarrow> if x = CHR ''+'' \<or> x = CHR ''-'' then all_digits t else all_digits r))"

definition unsigned_decimal :: "string \<Rightarrow> bool" where
  "unsigned_decimal s =
     (s = ''Infinity'' \<or>
      (let ip = takeWhile is_digit s; r = dropWhile is_digit s
       in case r of
            [] \<Rightarrow> ip \<noteq> []
          | c # r' \<Rightarrow>
              if c = CHR ''.''
              then (ip \<noteq> [] \<or> takeWhile is_digit r' \<noteq> []) \<and> exponent_part (dropWhile is_digit r')
              else ip \<noteq> [] \<and> exponent_part r))"

definition radix_literal :: "string \<Rightarrow> bool" where
  "radix_literal s =
     (case s of
        z # x # r \<Rightarrow>
          z = CHR ''0'' \<and> r \<noteq> [] \<and>
          (if x = CHR ''x'' \<or> x = CHR ''X'' then list_all (\<lambda>c. c \<in> set ''0123456789abcdefABCDEF'') r
           else if x = CHR ''o'' \<or> x = CHR ''O'' then list_all (\<lambda>c. c \<in> set ''01234567'') r
           else if x = CHR ''b'' \<or> x = CHR ''B'' then list_all (\<lambda>c. c \<in> set ''01'') r
           else False)
      | _ \<Rightarrow> False)"

definition numeric_string :: "string \<Rightarrow> bool" where
  "numeric_string s =
     (let t = trim s
      in t = [] \<or> radix_literal t \<or>
         (case t of
            [] \<Rightarrow> False
          | c # r \<Rightarrow> if c = CHR ''+'' \<or> c = CHR ''-'' then unsigned_decimal r else unsigned_decimal t))"

definition js_isNaN :: "string option \<Rightarrow> bool" where
  "js_isNaN v = (case v of None \<Rightarrow> True | Some s \<Rightarrow> \<not> numeric_string s)"

subsection \<open>Translation\<close>

text \<open>
  \<^verbatim>\<open>gettext\<close> and \<^verbatim>\<open>ngettext\<close> belong to the page's translation catalog, an external
  collaborator: \<^verbatim>\<open>ngettext(singular, plural, count)\<close> picks the form for the count.
  The catalog is a parameter of the code that formats text.
\<close>

record catalog =
  gettext :: "string \<Rightarrow> string"
  ngettext :: "string \<Rightarrow> string \<Rightarrow> string \<Rightarrow> string"

section \<open>ItemUtilities.refreshOptionString\<close>

text \<open>
  \<^verbatim>\<open>
  refreshOptionString: function(element) {
      var points = $(element).attr('data-points');
      var label = $(element).attr('data-label');
      var name = $(element).val();
      if (label === ""){ label = gettext('Unnamed Option'); }
      var singularString = label + " - " + points + " point";
      var multipleString = label + " - " + points + " points";
      var finalLabel = "";
      if (name === '') { finalLabel = gettext('Not Selected'); }
      else if (isNaN(points)) { finalLabel = label; }
      else { finalLabel = ngettext(singularString, multipleString, points); }
      $(element).text(finalLabel);
  }
  \<close>
  \<open>optionString\<close> is the value of \<^verbatim>\<open>finalLabel\<close> when the last line is reached.
\<close>

definition optionString :: "catalog \<Rightarrow> dom \<Rightarrow> jq \<Rightarrow> string option" where
  "optionString cat d element =
     (let points = jq_attr d element ''data-points'';
          label = jq_attr d element ''data-label'';
          name = jq_val d element;
          label = (if label = Some '''' then Some (gettext cat ''Unnamed Option'') else label);
          singularString = js_str label @ '' - '' @ js_str points @ '' point'';
          multipleString = js_str label @ '' - '' @ js_str points @ '' points''
      in if name = Some '''' then Some (gettext cat ''Not Selected'')
         else if js_isNaN points then label
         else Some (ngettext cat singularString multipleString (js_str points)))"

definition refreshOptionString :: "catalog \<Rightarrow> dom \<Rightarrow> jq \<Rightarrow> dom" where
  "refreshOptionString cat d element = jq_set_text d element (optionString cat d element)"

section \<open>The field accessors\<close>

text \<open>
  \<^verbatim>\<open>OpenAssessment.Fields.stringField\<close> and \<^verbatim>\<open>OpenAssessment.IntField\<close> are used
  by the item classes and defined in another file of the repository; they are modelled
  from section 4.2 of the spec. The mark on a field is the highlight class the item
  classes themselves put on the criterion prompt and on the dropdowns.
\<close>

definition highlighted :: string where
  "highlighted = ''openassessment_highlighted_field''"

definition jq_set_val :: "dom \<Rightarrow> jq \<Rightarrow> string \<Rightarrow> dom" where
  \<comment> \<open>\<^verbatim>\<open>.val(s)\<close> on every matched element\<close>
  "jq_set_val d sel s = dom_update d sel (\<lambda>e. e\<lparr>el_value := s\<rparr>)"

text \<open>
  Modelled from the spec: \<^verbatim>\<open>stringField(sel, value)\<close> is missing. A string field has
  \<open>get\<close>, the text of the backing form field, and \<open>set\<close>, which overwrites it; no
  validation. Called with a value it sets, and it always gets.
\<close>

definition stringField :: "dom \<Rightarrow> jq \<Rightarrow> string option \<Rightarrow> string option \<times> dom" where
  "stringField d sel v =
     (let d' = (case v of None \<Rightarrow> d | Some s \<Rightarrow> jq_set_val d sel s)
      in (jq_val d' sel, d'))"

text \<open>
  Modelled from the spec: the \<^verbatim>\<open>IntField\<close> class is missing. An int field is bound to
  a backing input and configured with an inclusive range.
\<close>

record int_field =
  input :: jq
  fmin :: int
  fmax :: int

definition IntField :: "jq \<Rightarrow> int \<Rightarrow> int \<Rightarrow> int_field" where
  "IntField inputSel mn mx = \<lparr>input = inputSel, fmin = mn, fmax = mx\<rparr>"

text \<open>
  Modelled from the spec: \<^verbatim>\<open>IntField.get\<close> is missing. It returns a number, \<^verbatim>\<open>NaN\<close>
  (\<open>None\<close>) when the backing value is not numeric. The spec does not say which strings
  are numeric: here they are the decimal digits with an optional minus sign.
\<close>

definition parse_int :: "string \<Rightarrow> int option" where
  "parse_int s =
     (case s of
        [] \<Rightarrow> None
      | c # r \<Rightarrow>
          if c = CHR ''-'' then (if all_digits r then Some (- int (read_nat r)) else None)
          else if all_digits s then Some (int (read_nat s)) else None)"

definition IntField_get :: "dom \<Rightarrow> int_field \<Rightarrow> int option" where
  "IntField_get d f = (case jq_val d (input f) of None \<Rightarrow> None | Some s \<Rightarrow> parse_int s)"

text \<open>Modelled from the spec: \<^verbatim>\<open>IntField.set\<close> is missing. It writes the value into the backing input.\<close>

definition IntField_set :: "dom \<Rightarrow> int_field \<Rightarrow> int \<Rightarrow> dom" where
  "IntField_set d f n = jq_set_val d (input f) (show_int n)"

text \<open>
  Modelled from the spec: \<^verbatim>\<open>IntField.validate\<close> is missing. It is true iff the parsed
  value lies in the configured inclusive range; on failure it marks the field.
\<close>

definition IntField_validate :: "dom \<Rightarrow> int_field \<Rightarrow> bool \<times> dom" where
  "IntField_validate d f =
     (let isValid = (case IntField_get d f of
                       None \<Rightarrow> False
                     | Some n \<Rightarrow> fmin f \<le> n \<and> n \<le> fmax f)
      in (isValid, if \<not> isValid then jq_addClass d (input f) highlighted else d))"

text \<open>
  Modelled from the spec: \<^verbatim>\<open>IntField.validationErrors\<close> is missing. The error a
  failed \<open>validate\<close> records is read back from the mark; the spec does not give the
  message, and \<open>RubricOption\<close> uses only whether there is one.
\<close>

definition IntField_validationErrors :: "dom \<Rightarrow> int_field \<Rightarrow> string list" where
  "IntField_validationErrors d f =
     (if jq_hasClass d (input f) highlighted then [''Int field is invalid''] else [])"

text \<open>Modelled from the spec: \<^verbatim>\<open>IntField.clearValidationErrors\<close> is missing. It resets the mark.\<close>

definition IntField_clearValidationErrors :: "dom \<Rightarrow> int_field \<Rightarrow> dom" where
  "IntField_clearValidationErrors d f = jq_removeClass d (input f) highlighted"

section \<open>RubricOption\<close>

text \<open>
  An item object holds the jQuery objects its constructor resolved; the notifier it
  holds is passed to the handlers that use it. The constructor gives the points field
  the range 0 to 999.
\<close>

record rubric_option =
  ro_element :: jq
  pointsField :: int_field

definition RubricOption :: "dom \<Rightarrow> jq \<Rightarrow> rubric_option" where
  "RubricOption d element =
     \<lparr>ro_element = element,
      pointsField =
        IntField (jq_find d element (has_class ''openassessment_criterion_option_points'')) 0 999\<rparr>"

text \<open>
  The object \<^verbatim>\<open>getFieldValues\<close> returns. Its \<^verbatim>\<open>name\<close> key is left out when the name
  field holds the empty string: \<open>None\<close> is the key left out, \<open>Some v\<close> the key with
  value \<open>v\<close>.
\<close>

record option_fields =
  of_label :: "string option"
  of_points :: "int option"
  of_explanation :: "string option"
  of_name :: "string option option"

definition jq_data :: "dom \<Rightarrow> jq \<Rightarrow> string \<Rightarrow> string option" where
  \<comment> \<open>\<^verbatim>\<open>.data(key)\<close> read from the \<^verbatim>\<open>data-\<close> attribute, as its text\<close>
  "jq_data d sel key = jq_attr d sel (''data-'' @ key)"

definition RubricOption_label :: "dom \<Rightarrow> rubric_option \<Rightarrow> string option \<Rightarrow> string option \<times> dom" where
  "RubricOption_label d this label =
     (let sel = jq_find d (ro_element this) (has_class ''openassessment_criterion_option_label'')
      in stringField d sel label)"

definition RubricOption_points :: "dom \<Rightarrow> rubric_option \<Rightarrow> int option \<Rightarrow> int option \<times> dom" where
  \<comment> \<open>the argument is \<open>None\<close> when \<^verbatim>\<open>points()\<close> is called without one\<close>
  "RubricOption_points d this points =
     (let d' = (case points of None \<Rightarrow> d | Some n \<Rightarrow> IntField_set d (pointsField this) n)
      in (IntField_get d' (pointsField this), d'))"

definition RubricOption_explanation :: "dom \<Rightarrow> rubric_option \<Rightarrow> string option \<Rightarrow> string option \<times> dom" where
  "RubricOption_explanation d this explanation =
     (let sel = jq_find d (ro_element this) (has_class ''openassessment_criterion_option_explanation'')
      in stringField d sel explanation)"

definition RubricOption_getFieldValues :: "dom \<Rightarrow> rubric_option \<Rightarrow> option_fields" where
  "RubricOption_getFieldValues d this =
     (let nameString =
            fst (stringField d
                   (jq_find d (ro_element this) (has_class ''openassessment_criterion_option_name''))
                   None)
      in \<lparr>of_label = fst (RubricOption_label d this None),
          of_points = fst (RubricOption_points d this None),
          of_explanation = fst (RubricOption_explanation d this None),
          of_name = (if nameString \<noteq> Some '''' then Some nameString else None)\<rparr>)"

text \<open>
  \<^verbatim>\<open>
  addHandler: function (){
      var criterionElement = $(this.element).closest(".openassessment_criterion");
      var criterionName = $(criterionElement).data('criterion');
      var criterionLabel = $(".openassessment_criterion_label", criterionElement).val();
      var options = $(".openassessment_criterion_option", this.element.parent());
      var name = OpenAssessment.ItemUtilities.createUniqueName(options, "data-option");
      $(this.element).attr("data-criterion", criterionName).attr("data-option", name);
      $(".openassessment_criterion_option_name", this.element).attr("value", name);
      var fields = this.getFieldValues();
      this.notifier.notificationFired("optionAdd", { ... });
  }
  \<close>
\<close>

definition RubricOption_addHandler :: "notifier \<Rightarrow> dom \<Rightarrow> rubric_option \<Rightarrow> dom" where
  "RubricOption_addHandler notificationFired d this =
     (let criterionElement = jq_closest d (ro_element this) (has_class ''openassessment_criterion'');
          criterionName = jq_data d criterionElement ''criterion'';
          criterionLabel =
            jq_val d (jq_find d criterionElement (has_class ''openassessment_criterion_label''));
          options =
            jq_find d (jq_parent d (ro_element this)) (has_class ''openassessment_criterion_option'');
          name = createUniqueName d options ''data-option'';
          d1 = jq_set_attr d (ro_element this) ''data-criterion'' criterionName;
          d2 = jq_set_attr d1 (ro_element this) ''data-option'' (Some name);
          d3 = jq_set_attr d2
                 (jq_find d2 (ro_element this) (has_class ''openassessment_criterion_option_name''))
                 ''value'' (Some name);
          fields = RubricOption_getFieldValues d3 this
      in notificationFired ''optionAdd''
           [(''criterionName'', of_str criterionName),
            (''criterionLabel'', of_str criterionLabel),
            (''name'', Str name),
            (''label'', of_str (of_label fields)),
            (''points'', of_num (of_points fields))]
           d3)"

definition RubricOption_removeHandler :: "notifier \<Rightarrow> dom \<Rightarrow> rubric_option \<Rightarrow> dom" where
  "RubricOption_removeHandler notificationFired d this =
     (let criterionName = jq_data d (ro_element this) ''criterion'';
          optionName = jq_data d (ro_element this) ''option''
      in notificationFired ''optionRemove''
           [(''criterionName'', of_str criterionName), (''name'', of_str optionName)]
           d)"

definition RubricOption_updateHandler :: "notifier \<Rightarrow> dom \<Rightarrow> rubric_option \<Rightarrow> dom" where
  "RubricOption_updateHandler notificationFired d this =
     (let fields = RubricOption_getFieldValues d this;
          criterionName = jq_data d (ro_element this) ''criterion'';
          optionName = jq_data d (ro_element this) ''option'';
          optionLabel = of_label fields;
          optionPoints = of_points fields
      in notificationFired ''optionUpdated''
           [(''criterionName'', of_str criterionName),
            (''name'', of_str optionName),
            (''label'', of_str optionLabel),
            (''points'', of_num optionPoints)]
           d)"

definition RubricOption_validate :: "dom \<Rightarrow> rubric_option \<Rightarrow> bool \<times> dom" where
  "RubricOption_validate d this = IntField_validate d (pointsField this)"

definition RubricOption_validationErrors :: "dom \<Rightarrow> rubric_option \<Rightarrow> string list" where
  "RubricOption_validationErrors d this =
     (let hasError = (length (IntField_validationErrors d (pointsField this)) > 0)
      in if hasError then [''Option points are invalid''] else [])"

definition RubricOption_clearValidationErrors :: "dom \<Rightarrow> rubric_option \<Rightarrow> dom" where
  "RubricOption_clearValidationErrors d this = IntField_clearValidationErrors d (pointsField this)"

section \<open>RubricCriterion\<close>

text \<open>
  Modelled from the spec: the \<^verbatim>\<open>OpenAssessment.Container\<close> that holds a criterion's
  options is missing (it is defined in another file of the repository). The spec (6)
  describes it as an ordered collection of items: the container is the list of its
  items.
\<close>

type_synonym option_container = "rubric_option list"

text \<open>
  Modelled from the spec: \<^verbatim>\<open>Container.getAllItems\<close> is missing. It returns the ordered
  sequence of the items.
\<close>

definition getAllItems :: "option_container \<Rightarrow> rubric_option list" where
  "getAllItems c = c"

text \<open>
  Modelled from the spec: \<^verbatim>\<open>Container.getItemValues\<close> is missing. It returns the
  ordered sequence of the items' field values.
\<close>

definition getItemValues :: "dom \<Rightarrow> option_container \<Rightarrow> option_fields list" where
  "getItemValues d c = map (RubricOption_getFieldValues d) c"

record rubric_criterion =
  rc_element :: jq
  rc_labelSel :: jq
  rc_promptSel :: jq
  optionContainer :: option_container

definition RubricCriterion :: "dom \<Rightarrow> jq \<Rightarrow> option_container \<Rightarrow> rubric_criterion" where
  \<comment> \<open>the third argument is the container the constructor builds\<close>
  "RubricCriterion d element c =
     \<lparr>rc_element = element,
      rc_labelSel = jq_find d element (has_class ''openassessment_criterion_label''),
      rc_promptSel = jq_find d element (has_class ''openassessment_criterion_prompt''),
      optionContainer = c\<rparr>"

record criterion_fields =
  cf_label :: "string option"
  cf_prompt :: "string option"
  cf_feedback :: "string option"
  cf_options :: "option_fields list"
  cf_name :: "string option option"

definition RubricCriterion_label :: "dom \<Rightarrow> rubric_criterion \<Rightarrow> string option \<Rightarrow> string option \<times> dom" where
  "RubricCriterion_label d this label = stringField d (rc_labelSel this) label"

definition RubricCriterion_prompt :: "dom \<Rightarrow> rubric_criterion \<Rightarrow> string option \<Rightarrow> string option \<times> dom" where
  "RubricCriterion_prompt d this prompt = stringField d (rc_promptSel this) prompt"

definition RubricCriterion_feedback :: "dom \<Rightarrow> rubric_criterion \<Rightarrow> string option" where
  "RubricCriterion_feedback d this =
     jq_val d (jq_find d (rc_element this) (has_class ''openassessment_criterion_feedback''))"

definition RubricCriterion_getFieldValues :: "dom \<Rightarrow> rubric_criterion \<Rightarrow> criterion_fields" where
  "RubricCriterion_getFieldValues d this =
     (let nameString =
            fst (stringField d
                   (jq_find d (rc_element this) (has_class ''openassessment_criterion_name''))
                   None)
      in \<lparr>cf_label = fst (RubricCriterion_label d this None),
          cf_prompt = fst (RubricCriterion_prompt d this None),
          cf_feedback = RubricCriterion_feedback d this,
          cf_options = getItemValues d (optionContainer this),
          cf_name = (if nameString \<noteq> Some '''' then Some nameString else None)\<rparr>)"

definition RubricCriterion_addHandler :: "dom \<Rightarrow> rubric_criterion \<Rightarrow> dom" where
  "RubricCriterion_addHandler d this =
     (let criteria =
            jq_find d (jq_parent d (rc_element this)) (has_class ''openassessment_criterion'');
          name = createUniqueName d criteria ''data-criterion'';
          d1 = jq_set_attr d (rc_element this) ''data-criterion'' (Some name)
      in jq_set_attr d1
           (jq_find d1 (rc_element this) (has_class ''openassessment_criterion_name''))
           ''value'' (Some name))"

definition RubricCriterion_removeHandler :: "notifier \<Rightarrow> dom \<Rightarrow> rubric_criterion \<Rightarrow> dom" where
  "RubricCriterion_removeHandler notificationFired d this =
     (let criterionName = jq_data d (rc_element this) ''criterion''
      in notificationFired ''criterionRemove'' [(''criterionName'', of_str criterionName)] d)"

definition RubricCriterion_updateHandler :: "notifier \<Rightarrow> dom \<Rightarrow> rubric_criterion \<Rightarrow> dom" where
  "RubricCriterion_updateHandler notificationFired d this =
     (let fields = RubricCriterion_getFieldValues d this;
          criterionName = (case cf_name fields of None \<Rightarrow> None | Some v \<Rightarrow> v);
          criterionLabel = cf_label fields
      in notificationFired ''criterionUpdated''
           [(''criterionName'', of_str criterionName), (''criterionLabel'', of_str criterionLabel)]
           d)"

text \<open>
  \<^verbatim>\<open>
  validate: function() {
      var isValid = (this.prompt() !== "");
      if (!isValid) { this.promptSel.addClass("openassessment_highlighted_field"); }
      $.each(this.optionContainer.getAllItems(), function() {
          isValid = (this.validate() && isValid);
      });
      return isValid;
  }
  \<close>
  The loop over the options is \<open>validate_each\<close>: each option's \<open>validate\<close> runs before
  its result is joined to \<open>isValid\<close>.
\<close>

fun validate_each :: "rubric_option list \<Rightarrow> bool \<Rightarrow> dom \<Rightarrow> bool \<times> dom" where
  "validate_each [] isValid d = (isValid, d)"
| "validate_each (item # rest) isValid d =
     (let (v, d') = RubricOption_validate d item
      in validate_each rest (v \<and> isValid) d')"

definition RubricCriterion_validate :: "dom \<Rightarrow> rubric_criterion \<Rightarrow> bool \<times> dom" where
  "RubricCriterion_validate d this =
     (let isValid = (fst (RubricCriterion_prompt d this None) \<noteq> Some '''');
          d1 = (if \<not> isValid then jq_addClass d (rc_promptSel this) highlighted else d)
      in validate_each (getAllItems (optionContainer this)) isValid d1)"

fun errors_each :: "dom \<Rightarrow> rubric_option list \<Rightarrow> string list \<Rightarrow> string list" where
  "errors_each d [] errors = errors"
| "errors_each d (item # rest) errors =
     errors_each d rest (errors @ RubricOption_validationErrors d item)"

definition RubricCriterion_validationErrors :: "dom \<Rightarrow> rubric_criterion \<Rightarrow> string list" where
  "RubricCriterion_validationErrors d this =
     (let errors = [];
          errors = (if jq_hasClass d (rc_promptSel this) highlighted
                    then errors @ [''Criterion prompt is invalid.''] else errors)
      in errors_each d (getAllItems (optionContainer this)) errors)"

fun clear_each :: "rubric_option list \<Rightarrow> dom \<Rightarrow> dom" where
  "clear_each [] d = d"
| "clear_each (item # rest) d = clear_each rest (RubricOption_clearValidationErrors d item)"

definition RubricCriterion_clearValidationErrors :: "dom \<Rightarrow> rubric_criterion \<Rightarrow> dom" where
  "RubricCriterion_clearValidationErrors d this =
     clear_each (getAllItems (optionContainer this)) (jq_removeClass d (rc_promptSel this) highlighted)"

section \<open>TrainingExample\<close>

record training_example =
  te_element :: jq
  te_criteria :: jq
  te_answer :: jq

definition TrainingExample :: "dom \<Rightarrow> jq \<Rightarrow> training_example" where
  "TrainingExample d element =
     \<lparr>te_element = element,
      te_criteria = jq_find d element (has_class ''openassessment_training_example_criterion_option''),
      te_answer = jq_first (jq_find d element (has_class ''openassessment_training_example_essay''))\<rparr>"

fun refresh_options :: "catalog \<Rightarrow> jq \<Rightarrow> dom \<Rightarrow> dom" where
  "refresh_options cat [] d = d"
| "refresh_options cat (opt # rest) d = refresh_options cat rest (refreshOptionString cat d [opt])"

fun refresh_dropdowns :: "catalog \<Rightarrow> jq \<Rightarrow> dom \<Rightarrow> dom" where
  "refresh_dropdowns cat [] d = d"
| "refresh_dropdowns cat (s # rest) d =
     refresh_dropdowns cat rest (refresh_options cat (jq_find d [s] (tag_is ''option'')) d)"

definition TrainingExample_addHandler :: "catalog \<Rightarrow> dom \<Rightarrow> training_example \<Rightarrow> dom" where
  "TrainingExample_addHandler cat d this =
     refresh_dropdowns cat
       (jq_find d (te_element this) (has_class ''openassessment_training_example_criterion_option''))
       d"

text \<open>
  \<^verbatim>\<open>
  validate: function() {
      var isValid = true;
      this.criteria.each(function() {
          var isOptionValid = ($(this).prop('value') !== "");
          isValid = isOptionValid && isValid;
          if (!isOptionValid) { $(this).addClass("openassessment_highlighted_field"); }
      });
      return isValid;
  }
  \<close>
\<close>

fun example_validate_each :: "jq \<Rightarrow> bool \<Rightarrow> dom \<Rightarrow> bool \<times> dom" where
  "example_validate_each [] isValid d = (isValid, d)"
| "example_validate_each (this # rest) isValid d =
     (let isOptionValid = (jq_val d [this] \<noteq> Some '''');
          isValid = (isOptionValid \<and> isValid)
      in example_validate_each rest isValid
           (if \<not> isOptionValid then jq_addClass d [this] highlighted else d))"

fun example_errors_each :: "string \<Rightarrow> dom \<Rightarrow> jq \<Rightarrow> string list \<Rightarrow> string list" where
  "example_errors_each msg d [] errors = errors"
| "example_errors_each msg d (this # rest) errors =
     (let hasError = jq_hasClass d [this] highlighted
      in example_errors_each msg d rest (if hasError then errors @ [msg] else errors))"

fun example_clear_each :: "jq \<Rightarrow> dom \<Rightarrow> dom" where
  "example_clear_each [] d = d"
| "example_clear_each (this # rest) d = example_clear_each rest (jq_removeClass d [this] highlighted)"

definition TrainingExample_validate :: "dom \<Rightarrow> training_example \<Rightarrow> bool \<times> dom" where
  "TrainingExample_validate d this = example_validate_each (te_criteria this) True d"

definition TrainingExample_validationErrors :: "dom \<Rightarrow> training_example \<Rightarrow> string list" where
  "TrainingExample_validationErrors d this =
     example_errors_each ''Student training example is invalid.'' d (te_criteria this) []"

definition TrainingExample_clearValidationErrors :: "dom \<Rightarrow> training_example \<Rightarrow> dom" where
  "TrainingExample_clearValidationErrors d this = example_clear_each (te_criteria this) d"

section \<open>AIExample and AIExampleMenuItem\<close>

record ai_example =
  ai_element :: jq
  ai_labelSel :: jq
  ai_answer :: jq
  ai_criteria :: jq

definition AIExample :: "dom \<Rightarrow> jq \<Rightarrow> ai_example \<times> dom" where
  \<comment> \<open>the constructor hides the element\<close>
  "AIExample d element =
     (let d' = jq_addClass d element ''is--hidden''
      in (\<lparr>ai_element = element,
           ai_labelSel =
             jq_first (jq_find d'
                         (jq_find d' element (has_class ''openassessment_ai_example_label_field''))
                         (tag_is ''input'')),
           ai_answer = jq_first (jq_find d' element (has_class ''openassessment_ai_example_essay'')),
           ai_criteria = jq_find d' element (has_class ''openassessment_ai_example_criterion_option'')\<rparr>,
          d'))"

text \<open>
  \<^verbatim>\<open>
  addHandler: function() {
      $(".openassessment_ai_example_criterion_option", this.element) .each( function () {
          $('option', this).each(function(){
              OpenAssessment.ItemUtilities.refreshOptionString($(this));
          });
      });
      // Constructs a unique name for the example so that it can be paired with a AIMenuItem
      $(this.element).attr(
          'data-example', OpenAssessment.ItemUtilities.createUniqueName(this.element, 'data-example')
      );
      this.addEventListeners();
  }
  \<close>
  The listeners \<^verbatim>\<open>addEventListeners\<close> installs are not part of the page's state.
\<close>

definition AIExample_addHandler :: "catalog \<Rightarrow> dom \<Rightarrow> ai_example \<Rightarrow> dom" where
  "AIExample_addHandler cat d this =
     (let d1 = refresh_dropdowns cat
                 (jq_find d (ai_element this) (has_class ''openassessment_ai_example_criterion_option''))
                 d
      in jq_set_attr d1 (ai_element this) ''data-example''
           (Some (createUniqueName d1 (ai_element this) ''data-example'')))"

text \<open>
  \<^verbatim>\<open>
  updateHandler: function() {
      var view = this;
      var sel = ".openassessment_ai_example_menu_item[data-example='"
                + $(this.element).attr('data-example') +"']"
      $(sel, $(this.element).closest('#openassessment_ai_editor_menu_and_editor'))
          .find('h2').first().text($(view.labelSel).val());
  }
  \<close>
  The selector is read as the test it denotes: the class and the attribute value.
\<close>

definition menu_item_of :: "string \<Rightarrow> element \<Rightarrow> bool" where
  "menu_item_of ident e =
     (has_class ''openassessment_ai_example_menu_item'' e \<and> attr_is ''data-example'' ident e)"

definition AIExample_updateHandler :: "dom \<Rightarrow> ai_example \<Rightarrow> dom" where
  "AIExample_updateHandler d this =
     (let sel = menu_item_of (js_str (jq_attr d (ai_element this) ''data-example''));
          scope = jq_closest d (ai_element this) (attr_is ''id'' ''openassessment_ai_editor_menu_and_editor'')
      in jq_set_text d
           (jq_first (jq_find d (jq_find d scope sel) (tag_is ''h2'')))
           (jq_val d (ai_labelSel this)))"

definition AIExample_validate :: "dom \<Rightarrow> ai_example \<Rightarrow> bool \<times> dom" where
  "AIExample_validate d this = example_validate_each (ai_criteria this) True d"

definition AIExample_validationErrors :: "dom \<Rightarrow> ai_example \<Rightarrow> string list" where
  "AIExample_validationErrors d this =
     example_errors_each ''An Example Based Assessment Example is invalid.'' d (ai_criteria this) []"

definition AIExample_clearValidationErrors :: "dom \<Rightarrow> ai_example \<Rightarrow> dom" where
  "AIExample_clearValidationErrors d this = example_clear_each (ai_criteria this) d"

record ai_example_menu_item =
  mi_element :: jq
  mi_labelSel :: jq
  menuAndEditor :: jq

definition AIExampleMenuItem :: "dom \<Rightarrow> jq \<Rightarrow> ai_example_menu_item" where
  "AIExampleMenuItem d element =
     \<lparr>mi_element = element,
      mi_labelSel = jq_find d element (has_class ''openassessment_ai_example_label_field''),
      menuAndEditor = jq_closest d element (attr_is ''id'' ''openassessment_ai_editor_menu_and_editor'')\<rparr>"

definition AIExampleMenuItem_addHandler :: "dom \<Rightarrow> ai_example_menu_item \<Rightarrow> dom" where
  "AIExampleMenuItem_addHandler d this =
     jq_set_attr d (mi_element this) ''data-example''
       (Some (createUniqueName d (mi_element this) ''data-example''))"

definition AIExampleMenuItem_validate :: "dom \<Rightarrow> ai_example_menu_item \<Rightarrow> bool \<times> dom" where
  "AIExampleMenuItem_validate d this = (True, d)"

definition AIExampleMenuItem_validationErrors :: "dom \<Rightarrow> ai_example_menu_item \<Rightarrow> string list" where
  "AIExampleMenuItem_validationErrors d this = []"

definition AIExampleMenuItem_clearValidationErrors :: "dom \<Rightarrow> ai_example_menu_item \<Rightarrow> dom" where
  "AIExampleMenuItem_clearValidationErrors d this = d"

section \<open>Notions the theorems use\<close>

text \<open>An option has a points field when its int field is bound to an element of the page.\<close>

definition has_points_field :: "dom \<Rightarrow> rubric_option \<Rightarrow> bool" where
  "has_points_field d this = (\<exists>i r. input (pointsField this) = i # r \<and> i < length d)"

text \<open>
  The page after a failed \<open>validate\<close> and a correction: the criterion's prompt set to
  \<open>s\<close>, or the value \<open>s\<close> chosen in dropdown \<open>j\<close> of a training example.
\<close>

definition criterion_corrected :: "dom \<Rightarrow> rubric_criterion \<Rightarrow> string \<Rightarrow> dom" where
  "criterion_corrected d crit s =
     snd (RubricCriterion_prompt (snd (RubricCriterion_validate d crit)) crit (Some s))"

definition example_corrected :: "dom \<Rightarrow> training_example \<Rightarrow> nat \<Rightarrow> string \<Rightarrow> dom" where
  "example_corrected d ex j s = jq_set_val (snd (TrainingExample_validate d ex)) [j] s"

text \<open>
  The menu items the selector of \<open>AIExample_updateHandler\<close> matches: those in the
  example's menu-and-editor scope that carry the example's identifier.
\<close>

definition matching_menu_items :: "dom \<Rightarrow> ai_example \<Rightarrow> jq" where
  "matching_menu_items d this =
     jq_find d
       (jq_closest d (ai_element this) (attr_is ''id'' ''openassessment_ai_editor_menu_and_editor''))
       (menu_item_of (js_str (jq_attr d (ai_element this) ''data-example'')))"


text \<open>A test of \<open>sibling_set\<close> that can be run on a page.\<close>

definition sibling_set_check :: "dom \<Rightarrow> jq \<Rightarrow> string \<Rightarrow> bool" where
  "sibling_set_check d selector nameAttribute =
     (\<exists>p \<in> set [0..<length d].
        (\<forall>s \<in> set selector. parent_of d s = Some p) \<and>
        (\<forall>j \<in> set [0..<length d]. p \<in> set (ancestors d j) \<longrightarrow>
           (case attr_of (d ! j) nameAttribute of
              None \<Rightarrow> True
            | Some v \<Rightarrow> \<exists>s \<in> set selector. s < length d \<and> attr_of (d ! s) nameAttribute = Some v)))"

section \<open>Example pages\<close>

text \<open>The pages and items on which the theorems below are instantiated.\<close>

definition blank :: element where
  "blank = \<lparr>el_parent = None, el_tag = ''div'', el_classes = {}, el_attrs = [],
            el_value = [], el_text = []\<rparr>"

definition option_list_dom :: dom where
  "option_list_dom =
     [blank\<lparr>el_tag := ''ul''\<rparr>,
      blank\<lparr>el_parent := Some 0, el_tag := ''li'', el_attrs := [(''data-option'', ''0'')]\<rparr>,
      blank\<lparr>el_parent := Some 0, el_tag := ''li'', el_attrs := [(''data-option'', ''2'')]\<rparr>,
      blank\<lparr>el_parent := Some 0, el_tag := ''li''\<rparr>]"

definition option_items :: jq where
  "option_items = [1, 2, 3]"

definition option_page :: dom where
  "option_page =
     [blank\<lparr>el_tag := ''li'', el_classes := {''openassessment_criterion_option''}\<rparr>,
      blank\<lparr>el_parent := Some 0, el_tag := ''input'',
            el_classes := {''openassessment_criterion_option_points''}, el_value := ''5''\<rparr>]"

definition option_item :: rubric_option where
  "option_item = RubricOption option_page [0]"

definition criterion_page :: dom where
  "criterion_page =
     [blank\<lparr>el_classes := {''openassessment_criterion''}\<rparr>,
      blank\<lparr>el_parent := Some 0, el_tag := ''textarea'',
            el_classes := {''openassessment_criterion_prompt''}\<rparr>,
      blank\<lparr>el_parent := Some 0, el_tag := ''li'', el_classes := {''openassessment_criterion_option''}\<rparr>,
      blank\<lparr>el_parent := Some 2, el_tag := ''input'',
            el_classes := {''openassessment_criterion_option_points''}, el_value := ''1000''\<rparr>,
      blank\<lparr>el_parent := Some 0, el_tag := ''li'', el_classes := {''openassessment_criterion_option''}\<rparr>,
      blank\<lparr>el_parent := Some 4, el_tag := ''input'',
            el_classes := {''openassessment_criterion_option_points''}, el_value := ''3''\<rparr>]"

definition criterion_item :: rubric_criterion where
  "criterion_item =
     RubricCriterion criterion_page [0]
       [RubricOption criterion_page [2], RubricOption criterion_page [4]]"

definition training_page :: dom where
  "training_page =
     [blank\<lparr>el_classes := {''openassessment_training_example''}\<rparr>,
      blank\<lparr>el_parent := Some 0, el_tag := ''select'',
            el_classes := {''openassessment_training_example_criterion_option''}\<rparr>,
      blank\<lparr>el_parent := Some 0, el_tag := ''select'',
            el_classes := {''openassessment_training_example_criterion_option''},
            el_value := ''good''\<rparr>]"

definition training_item :: training_example where
  "training_item = TrainingExample training_page [0]"

text \<open>
  The training page after a first \<open>validate\<close> (which marks the first dropdown), the
  author then choosing an option in the first dropdown and unselecting the second.
\<close>

definition reselected_page :: dom where
  "reselected_page =
     jq_set_val (example_corrected training_page training_item 1 ''fair'') [2] []"

definition stale_page :: dom where
  "stale_page =
     [blank\<lparr>el_classes := {''openassessment_criterion''}\<rparr>,
      blank\<lparr>el_parent := Some 0, el_tag := ''textarea'',
            el_classes := {''openassessment_criterion_prompt''}\<rparr>,
      blank\<lparr>el_parent := Some 0, el_tag := ''li'', el_classes := {''openassessment_criterion_option''}\<rparr>,
      blank\<lparr>el_parent := Some 2, el_tag := ''input'',
            el_classes := {''openassessment_criterion_option_points''}, el_value := ''3''\<rparr>]"

definition stale_criterion :: rubric_criterion where
  "stale_criterion = RubricCriterion stale_page [0] [RubricOption stale_page [2]]"

definition option_add_page :: dom where
  "option_add_page =
     [blank\<lparr>el_classes := {''openassessment_criterion''}, el_attrs := [(''data-criterion'', ''0'')]\<rparr>,
      blank\<lparr>el_parent := Some 0, el_tag := ''input'',
            el_classes := {''openassessment_criterion_label''}, el_value := ''Ideas''\<rparr>,
      blank\<lparr>el_parent := Some 0, el_tag := ''ul''\<rparr>,
      blank\<lparr>el_parent := Some 2, el_tag := ''li'', el_classes := {''openassessment_criterion_option''},
            el_attrs := [(''data-criterion'', ''0''), (''data-option'', ''0'')]\<rparr>,
      blank\<lparr>el_parent := Some 2, el_tag := ''li'', el_classes := {''openassessment_criterion_option''}\<rparr>,
      blank\<lparr>el_parent := Some 4, el_tag := ''input'',
            el_classes := {''openassessment_criterion_option_name''}\<rparr>,
      blank\<lparr>el_parent := Some 4, el_tag := ''input'',
            el_classes := {''openassessment_criterion_option_label''}, el_value := ''Good''\<rparr>,
      blank\<lparr>el_parent := Some 4, el_tag := ''input'',
            el_classes := {''openassessment_criterion_option_points''}, el_value := ''3''\<rparr>]"

definition option_add_item :: rubric_option where
  "option_add_item = RubricOption option_add_page [4]"

definition ai_page :: dom where
  "ai_page =
     [blank\<lparr>el_attrs := [(''id'', ''openassessment_ai_editor_menu_and_editor'')]\<rparr>,
      blank\<lparr>el_parent := Some 0, el_tag := ''ul''\<rparr>,
      blank\<lparr>el_parent := Some 1, el_tag := ''li'',
            el_classes := {''openassessment_ai_example_menu_item''},
            el_attrs := [(''data-example'', ''1'')]\<rparr>,
      blank\<lparr>el_parent := Some 2, el_tag := ''h2'', el_text := ''First''\<rparr>,
      blank\<lparr>el_parent := Some 1, el_tag := ''li'',
            el_classes := {''openassessment_ai_example_menu_item''},
            el_attrs := [(''data-example'', ''2'')]\<rparr>,
      blank\<lparr>el_parent := Some 4, el_tag := ''h2'', el_text := ''Old''\<rparr>,
      blank\<lparr>el_parent := Some 0\<rparr>,
      blank\<lparr>el_parent := Some 6, el_classes := {''openassessment_ai_example''},
            el_attrs := [(''data-example'', ''2'')]\<rparr>,
      blank\<lparr>el_parent := Some 7, el_classes := {''openassessment_ai_example_label_field''}\<rparr>,
      blank\<lparr>el_parent := Some 8, el_tag := ''input'', el_value := ''Foo''\<rparr>]"

definition ai_item :: ai_example where
  "ai_item = fst (AIExample ai_page [7])"

definition ai_hidden_page :: dom where
  "ai_hidden_page = snd (AIExample ai_page [7])"

definition ai_unpaired_page :: dom where
  "ai_unpaired_page =
     [blank\<lparr>el_attrs := [(''id'', ''openassessment_ai_editor_menu_and_editor'')]\<rparr>,
      blank\<lparr>el_parent := Some 0, el_tag := ''ul''\<rparr>,
      blank\<lparr>el_parent := Some 1, el_tag := ''li'',
            el_classes := {''openassessment_ai_example_menu_item''},
            el_attrs := [(''data-example'', ''1'')]\<rparr>,
      blank\<lparr>el_parent := Some 2, el_tag := ''h2'', el_text := ''First''\<rparr>,
      blank\<lparr>el_parent := Some 0\<rparr>,
      blank\<lparr>el_parent := Some 4, el_classes := {''openassessment_ai_example''},
            el_attrs := [(''data-example'', ''2'')]\<rparr>,
      blank\<lparr>el_parent := Some 5, el_classes := {''openassessment_ai_example_label_field''}\<rparr>,
      blank\<lparr>el_parent := Some 6, el_tag := ''input'', el_value := ''Foo''\<rparr>]"

definition ai_unpaired_item :: ai_example where
  "ai_unpaired_item = fst (AIExample ai_unpaired_page [5])"

definition ai_unpaired_hidden_page :: dom where
  "ai_unpaired_hidden_page = snd (AIExample ai_unpaired_page [5])"

text \<open>
  A catalog without translations; its plural rule gives the singular for the count
  written \<^verbatim>\<open>1\<close>.
\<close>

definition plain_catalog :: catalog where
  "plain_catalog =
     \<lparr>gettext = (\<lambda>s. s),
      ngettext = (\<lambda>singular plural count. if count = ''1'' then singular else plural)\<rparr>"


text \<open>
  Adding an AI example, as the container does it (spec, 3 and 6): a copy of the
  template is appended to the container's element (element 0 here), the item is
  constructed on it and its \<open>addHandler\<close> runs. \<open>added ident\<close> is the example as
  that leaves it.
\<close>

definition example_template :: element where
  "example_template = blank\<lparr>el_parent := Some 0, el_classes := {''openassessment_ai_example''}\<rparr>"

definition add_example :: "catalog \<Rightarrow> dom \<Rightarrow> dom" where
  "add_example cat d =
     (let (this, d') = AIExample (d @ [example_template]) [length d]
      in AIExample_addHandler cat d' this)"

definition added :: "string \<Rightarrow> element" where
  "added ident =
     blank\<lparr>el_parent := Some 0,
           el_classes := {''is--hidden'', ''openassessment_ai_example''},
           el_attrs := [(''data-example'', ident)]\<rparr>"

definition four_examples :: dom where
  "four_examples =
     add_example plain_catalog (add_example plain_catalog
       (add_example plain_catalog (add_example plain_catalog [blank])))"


definition option_full_dom :: dom where
  "option_full_dom =
     [blank\<lparr>el_tag := ''ul''\<rparr>,
      blank\<lparr>el_parent := Some 0, el_tag := ''li'', el_attrs := [(''data-option'', ''0'')]\<rparr>,
      blank\<lparr>el_parent := Some 0, el_tag := ''li'', el_attrs := [(''data-option'', ''1'')]\<rparr>]"

definition option_full_items :: jq where
  "option_full_items = [1, 2]"

section \<open>Facts about the document operations\<close>

lemma map_of_filter_key:
  "map_of (filter (\<lambda>kv. fst kv \<noteq> name) xs) k = (if k = name then None else map_of xs k)"
  by (induction xs) auto

lemma attr_of_set_attr [simp]:
  "attr_of (set_attr name s e) k = (if k = name then Some s else attr_of e k)"
  by (simp add: attr_of_def set_attr_def map_of_filter_key)

lemma set_attr_fields [simp]:
  "el_parent (set_attr name s e) = el_parent e"
  "el_tag (set_attr name s e) = el_tag e"
  "el_classes (set_attr name s e) = el_classes e"
  "el_value (set_attr name s e) = el_value e"
  "el_text (set_attr name s e) = el_text e"
  by (simp_all add: set_attr_def)

lemma length_dom_update [simp]: "length (dom_update d sel f) = length d"
  by (simp add: dom_update_def)

lemma nth_dom_update:
  "i < length d \<Longrightarrow> dom_update d sel f ! i = (if i \<in> set sel then f (d ! i) else d ! i)"
  by (simp add: dom_update_def)

lemma digit_value: "k < 10 \<Longrightarrow> (of_char (digit_char k) :: nat) - 48 = k"
proof -
  assume "k < 10"
  then have "k = 0 \<or> k = 1 \<or> k = 2 \<or> k = 3 \<or> k = 4 \<or> k = 5 \<or> k = 6 \<or> k = 7 \<or> k = 8 \<or> k = 9"
    by arith
  then show ?thesis
    by (elim disjE) (simp_all add: digit_char_def)
qed

lemma read_nat_snoc: "read_nat (s @ [c]) = 10 * read_nat s + (of_char c - 48)"
  by (simp add: read_nat_def)

lemma read_show_nat: "read_nat (show_nat n) = n"
proof (induction n rule: show_nat.induct)
  case (1 n)
  show ?case
  proof (cases "n < 10")
    case True
    then show ?thesis
      by (subst show_nat.simps) (simp add: read_nat_def digit_value)
  next
    case False
    with 1 have "read_nat (show_nat (n div 10)) = n div 10" by simp
    with False show ?thesis
      by (subst show_nat.simps) (simp add: read_nat_snoc digit_value)
  qed
qed

lemma show_nat_inject: "show_nat m = show_nat n \<longleftrightarrow> m = n"
  by (metis read_show_nat)

lemma jq_find_empty_iff:
  "jq_find d ctx P = [] \<longleftrightarrow>
     \<not> (\<exists>j < length d. P (d ! j) \<and> (\<exists>a \<in> set (ancestors d j). a \<in> set ctx))"
  by (auto simp: jq_find_def filter_empty_conv)

lemma parent_of_bound: "parent_of d i = Some p \<Longrightarrow> i < length d \<and> p < i"
  by (auto simp: parent_of_def split: if_splits option.splits)

lemma set_jq_parent:
  "set (jq_parent d sel) = {p. \<exists>i \<in> set sel. parent_of d i = Some p}"
  using parent_of_bound by (fastforce simp: jq_parent_def)

lemma parent_in_ancestors: "parent_of d i = Some p \<Longrightarrow> p \<in> set (ancestors d i)"
  by (subst ancestors.simps) simp

lemma sibling_set_used:
  assumes "sibling_set d selector nameAttribute"
  shows "jq_find d (jq_parent d selector) (attr_is nameAttribute v) \<noteq> []
           \<longleftrightarrow> v \<in> sibling_ids d selector nameAttribute"
proof -
  from assms obtain p where
    par: "\<forall>s \<in> set selector. parent_of d s = Some p" and
    cl: "\<forall>j < length d. p \<in> set (ancestors d j) \<longrightarrow>
           (\<forall>v. attr_of (d ! j) nameAttribute = Some v \<longrightarrow>
                v \<in> sibling_ids d selector nameAttribute)"
    unfolding sibling_set_def by blast
  show ?thesis
  proof
    assume "jq_find d (jq_parent d selector) (attr_is nameAttribute v) \<noteq> []"
    then obtain j a where j: "j < length d" "attr_is nameAttribute v (d ! j)"
      "a \<in> set (ancestors d j)" "a \<in> set (jq_parent d selector)"
      by (auto simp: jq_find_empty_iff)
    from j(4) par have "a = p" by (auto simp: set_jq_parent)
    with j cl show "v \<in> sibling_ids d selector nameAttribute"
      by (auto simp: attr_is_def)
  next
    assume "v \<in> sibling_ids d selector nameAttribute"
    then obtain s where s: "s \<in> set selector" "s < length d" "attr_of (d ! s) nameAttribute = Some v"
      by (auto simp: sibling_ids_def)
    with par have ps: "parent_of d s = Some p" by blast
    then have "p \<in> set (ancestors d s)" by (rule parent_in_ancestors)
    moreover from ps s(1) have "p \<in> set (jq_parent d selector)" by (auto simp: set_jq_parent)
    ultimately show "jq_find d (jq_parent d selector) (attr_is nameAttribute v) \<noteq> []"
      using s by (auto simp: jq_find_empty_iff attr_is_def)
  qed
qed

lemma createUniqueName_loop_least:
  assumes "n \<le> length selector"
    and "jq_find d (jq_parent d selector) (attr_is nameAttribute (show_nat n)) = []"
    and "\<forall>m < n. jq_find d (jq_parent d selector) (attr_is nameAttribute (show_nat m)) \<noteq> []"
    and "index \<le> n"
  shows "createUniqueName_loop d selector nameAttribute index = show_nat n"
  using assms
proof (induction "n - index" arbitrary: index)
  case 0
  then have "index = n" by simp
  with 0 show ?case
    by (subst createUniqueName_loop.simps) simp
next
  case (Suc k)
  then have lt: "index < n" by simp
  with Suc.prems have taken: "jq_find d (jq_parent d selector) (attr_is nameAttribute (show_nat index)) \<noteq> []"
    by simp
  have "createUniqueName_loop d selector nameAttribute (index + 1) = show_nat n"
    using Suc.prems Suc.hyps(2) lt by (intro Suc.hyps(1)) simp_all
  with lt taken Suc.prems(1) show ?case
    by (subst createUniqueName_loop.simps) simp
qed

lemma sibling_ids_pigeonhole:
  "\<exists>n \<le> length selector. show_nat n \<notin> sibling_ids d selector nameAttribute"
proof (rule ccontr)
  assume "\<not> ?thesis"
  then have all: "\<forall>n \<le> length selector. show_nat n \<in> sibling_ids d selector nameAttribute"
    by blast
  let ?f = "\<lambda>s. the (attr_of (d ! s) nameAttribute)"
  have "show_nat ` {0..length selector} \<subseteq> ?f ` set selector"
  proof
    fix v assume "v \<in> show_nat ` {0..length selector}"
    with all have "v \<in> sibling_ids d selector nameAttribute" by auto
    then show "v \<in> ?f ` set selector"
      by (force simp: sibling_ids_def)
  qed
  then have "card (show_nat ` {0..length selector}) \<le> card (?f ` set selector)"
    by (intro card_mono) auto
  moreover have "card (show_nat ` {0..length selector}) = length selector + 1"
    by (subst card_image) (auto simp: inj_on_def show_nat_inject)
  moreover have "card (?f ` set selector) \<le> length selector"
    by (meson card_image_le card_length le_trans List.finite_set)
  ultimately show False by simp
qed

section \<open>createUniqueName returns the smallest unused identifier\<close>

lemma show_nat_small: "show_nat 0 = ''0''" "show_nat 1 = ''1''" "show_nat 2 = ''2''" "show_nat 3 = ''3''"
  by (simp_all add: show_nat.simps digit_char_def)

lemma sibling_set_checked:
  "sibling_set_check d selector nameAttribute \<Longrightarrow> sibling_set d selector nameAttribute"
  unfolding sibling_set_check_def sibling_set_def sibling_ids_def
  by (auto split: option.splits)

lemma sib_demo: "sibling_set option_list_dom option_items ''data-option''"
  by (rule sibling_set_checked) code_simp

lemma sib_full: "sibling_set option_full_dom option_full_items ''data-option''"
  by (rule sibling_set_checked) code_simp

lemma ids_demo: "sibling_ids option_list_dom option_items ''data-option'' = {''0'', ''2''}"
  by (auto simp: sibling_ids_def option_list_dom_def blank_def option_items_def attr_of_def)

lemma ids_full: "sibling_ids option_full_dom option_full_items ''data-option'' = {''0'', ''1''}"
  by (auto simp: sibling_ids_def option_full_dom_def blank_def option_full_items_def attr_of_def)

text \<open>
  Claim C1. When the selector is a sibling set of the identifying attribute,
  \<open>createUniqueName\<close> returns the decimal string of the smallest natural number that
  is not the attribute's value on any of the siblings. In particular, when the numbers
  in use among \<open>N\<close> siblings are \<open>0..N-1\<close> without one gap it returns the gap, and
  when they are all of \<open>0..N-1\<close> it returns \<open>N\<close>.
\<close>

theorem createUniqueName_smallest_unused:
  "sibling_set d selector nameAttribute \<Longrightarrow>
     (\<exists>n. createUniqueName d selector nameAttribute = show_nat n
          \<and> show_nat n \<notin> sibling_ids d selector nameAttribute
          \<and> (\<forall>m < n. show_nat m \<in> sibling_ids d selector nameAttribute))
     \<and> (\<forall>g. g < length selector
              \<and> (\<forall>k. show_nat k \<in> sibling_ids d selector nameAttribute
                       \<longleftrightarrow> k < length selector \<and> k \<noteq> g)
            \<longrightarrow> createUniqueName d selector nameAttribute = show_nat g)
     \<and> ((\<forall>k. show_nat k \<in> sibling_ids d selector nameAttribute \<longleftrightarrow> k < length selector)
            \<longrightarrow> createUniqueName d selector nameAttribute = show_nat (length selector))"
proof -
  assume sib: "sibling_set d selector nameAttribute"
  let ?ids = "sibling_ids d selector nameAttribute"
  have res: "createUniqueName d selector nameAttribute = show_nat n"
    if "n \<le> length selector" "show_nat n \<notin> ?ids" "\<forall>m < n. show_nat m \<in> ?ids" for n
    unfolding createUniqueName_def
    using that sibling_set_used [OF sib]
    by (intro createUniqueName_loop_least) auto
  obtain n0 where n0: "n0 \<le> length selector" "show_nat n0 \<notin> ?ids"
    using sibling_ids_pigeonhole by blast
  define n where "n = (LEAST k. show_nat k \<notin> ?ids)"
  have free: "show_nat n \<notin> ?ids"
    unfolding n_def using n0(2) by (rule LeastI)
  have le: "n \<le> length selector"
    unfolding n_def using n0 by (meson Least_le le_trans)
  have below: "\<forall>m < n. show_nat m \<in> ?ids"
    unfolding n_def using not_less_Least by blast
  have main: "\<exists>n. createUniqueName d selector nameAttribute = show_nat n
          \<and> show_nat n \<notin> ?ids \<and> (\<forall>m < n. show_nat m \<in> ?ids)"
    using res [OF le free below] free below by blast
  have gap: "createUniqueName d selector nameAttribute = show_nat g"
    if "g < length selector"
      "\<forall>k. show_nat k \<in> ?ids \<longleftrightarrow> k < length selector \<and> k \<noteq> g" for g
    using that by (intro res) auto
  have full: "createUniqueName d selector nameAttribute = show_nat (length selector)"
    if "\<forall>k. show_nat k \<in> ?ids \<longleftrightarrow> k < length selector"
    using that by (intro res) auto
  from main gap full show ?thesis by blast
qed

theorem createUniqueName_smallest_unused_witness:
  "sibling_set option_list_dom option_items ''data-option''
   \<and> createUniqueName option_list_dom option_items ''data-option'' = ''1''
   \<and> sibling_set option_full_dom option_full_items ''data-option''
   \<and> createUniqueName option_full_dom option_full_items ''data-option'' = ''2''"
proof -
  have len: "length option_items = 3" "length option_full_items = 2"
    by (simp_all add: option_items_def option_full_items_def)
  have "show_nat k \<in> {''0'', ''2''} \<longleftrightarrow> k < 3 \<and> k \<noteq> 1" for k
    using show_nat_inject [of k 0] show_nat_inject [of k 2]
    by (auto simp: show_nat_small)
  then have gap: "1 < length option_items \<and>
      (\<forall>k. show_nat k \<in> sibling_ids option_list_dom option_items ''data-option''
           \<longleftrightarrow> k < length option_items \<and> k \<noteq> 1)"
    unfolding ids_demo len by simp
  have "show_nat k \<in> {''0'', ''1''} \<longleftrightarrow> k < 2" for k
    using show_nat_inject [of k 0, unfolded show_nat_small] show_nat_inject [of k 1, unfolded show_nat_small]
    by auto
  then have full: "\<forall>k. show_nat k \<in> sibling_ids option_full_dom option_full_items ''data-option''
           \<longleftrightarrow> k < length option_full_items"
    unfolding ids_full len by simp
  have 1: "createUniqueName option_list_dom option_items ''data-option'' = show_nat 1"
    using createUniqueName_smallest_unused [OF sib_demo] gap by blast
  have 2: "createUniqueName option_full_dom option_full_items ''data-option'' = show_nat 2"
    using createUniqueName_smallest_unused [OF sib_full] full len(2) by metis
  from 1 2 sib_demo sib_full show ?thesis
    by (simp only: show_nat_small simp_thms)
qed

section \<open>Facts about classes, values and decimal strings\<close>

lemma length_jq_addClass [simp]: "length (jq_addClass d sel c) = length d"
  by (simp add: jq_addClass_def)

lemma length_jq_removeClass [simp]: "length (jq_removeClass d sel c) = length d"
  by (simp add: jq_removeClass_def)

lemma length_jq_set_val [simp]: "length (jq_set_val d sel s) = length d"
  by (simp add: jq_set_val_def)

lemma jq_val_addClass [simp]: "jq_val (jq_addClass d sel c) s = jq_val d s"
  by (auto simp: jq_val_def jq_addClass_def nth_dom_update split: list.splits)

lemma jq_val_removeClass [simp]: "jq_val (jq_removeClass d sel c) s = jq_val d s"
  by (auto simp: jq_val_def jq_removeClass_def nth_dom_update split: list.splits)

lemma has_class_addClass:
  "i < length d \<Longrightarrow>
     has_class c' (jq_addClass d sel c ! i) \<longleftrightarrow> has_class c' (d ! i) \<or> (c' = c \<and> i \<in> set sel)"
  by (auto simp: jq_addClass_def nth_dom_update has_class_def)

lemma has_class_removeClass:
  "i < length d \<Longrightarrow>
     has_class c' (jq_removeClass d sel c ! i) \<longleftrightarrow> has_class c' (d ! i) \<and> \<not> (c' = c \<and> i \<in> set sel)"
  by (auto simp: jq_removeClass_def nth_dom_update has_class_def)

lemma jq_hasClass_addClass:
  "jq_hasClass (jq_addClass d sel c) s c' \<longleftrightarrow>
     jq_hasClass d s c' \<or> (c' = c \<and> (\<exists>i \<in> set s. i \<in> set sel \<and> i < length d))"
  by (auto simp: jq_hasClass_def has_class_addClass)

lemma jq_hasClass_removeClass:
  "jq_hasClass (jq_removeClass d sel c) s c' \<longleftrightarrow>
     (\<exists>i \<in> set s. i < length d \<and> has_class c' (d ! i) \<and> \<not> (c' = c \<and> i \<in> set sel))"
  by (auto simp: jq_hasClass_def has_class_removeClass)

lemma jq_val_set_val:
  "jq_val (jq_set_val d sel s) sel = (case jq_val d sel of None \<Rightarrow> None | Some _ \<Rightarrow> Some s)"
  by (auto simp: jq_val_def jq_set_val_def nth_dom_update split: list.splits)

lemma jq_find_bound: "i \<in> set (jq_find d ctx P) \<Longrightarrow> i < length d"
  by (simp add: jq_find_def)

lemma jq_val_find:
  "jq_val d (jq_find d ctx P) = None \<longleftrightarrow> jq_find d ctx P = []"
  using jq_find_bound [of _ d ctx P]
  by (cases "jq_find d ctx P") (auto simp: jq_val_def)

lemma is_digit_digit_char: "k < 10 \<Longrightarrow> is_digit (digit_char k)"
proof -
  assume "k < 10"
  then have "k = 0 \<or> k = 1 \<or> k = 2 \<or> k = 3 \<or> k = 4 \<or> k = 5 \<or> k = 6 \<or> k = 7 \<or> k = 8 \<or> k = 9"
    by arith
  then show ?thesis
    by (elim disjE) (simp_all add: digit_char_def is_digit_def)
qed

lemma all_digits_show_nat: "all_digits (show_nat n)"
proof (induction n rule: show_nat.induct)
  case (1 n)
  show ?case
  proof (cases "n < 10")
    case True
    then show ?thesis
      by (subst show_nat.simps) (simp add: all_digits_def is_digit_digit_char)
  next
    case False
    with 1 have "all_digits (show_nat (n div 10))" by simp
    with False show ?thesis
      by (subst show_nat.simps) (simp add: all_digits_def is_digit_digit_char)
  qed
qed

lemma show_nat_not_minus: "show_nat n \<noteq> CHR ''-'' # r"
  using all_digits_show_nat [of n]
  by (auto simp: all_digits_def is_digit_def)

lemma show_nat_not_Nil: "show_nat n \<noteq> []"
  using all_digits_show_nat [of n] by (auto simp: all_digits_def)

lemma parse_show_int: "parse_int (show_int n) = Some n"
proof (cases "n < 0")
  case True
  then show ?thesis
    by (simp add: parse_int_def show_int_def all_digits_show_nat read_show_nat)
next
  case False
  obtain c r where cr: "show_nat (nat n) = c # r"
    using show_nat_not_Nil [of "nat n"] by (cases "show_nat (nat n)") auto
  with show_nat_not_minus [of "nat n" r] have "c \<noteq> CHR ''-''" by auto
  with False cr all_digits_show_nat [of "nat n"] read_show_nat [of "nat n"]
  show ?thesis
    by (simp add: parse_int_def show_int_def)
qed

section \<open>RubricOption: the range check\<close>

lemma IntField_get_after_set:
  assumes "has_points_field d this"
  shows "IntField_get (IntField_set d (pointsField this) n) (pointsField this) = Some n"
proof -
  from assms have "jq_val d (input (pointsField this)) \<noteq> None"
    by (auto simp: has_points_field_def jq_val_def)
  then show ?thesis
    by (auto simp: IntField_get_def IntField_set_def jq_val_set_val parse_show_int)
qed

lemma RubricOption_range:
  "fmin (pointsField (RubricOption d0 element)) = 0"
  "fmax (pointsField (RubricOption d0 element)) = 999"
  by (simp_all add: RubricOption_def IntField_def)

text \<open>
  Claim C4. An option's \<open>validate\<close> returns true exactly when its points value is a
  number from 0 to 999. For an option with a points field, setting the points to \<open>n\<close>
  and validating returns true exactly when \<open>0 \<le> n \<le> 999\<close> (so 0 and 999 pass, -1 and
  1000 fail); after a failed \<open>validate\<close> the errors are exactly
  \<open>[''Option points are invalid'']\<close>; after a successful \<open>validate\<close> of an option
  that reported no error before, the errors are empty.
\<close>

theorem RubricOption_validate_range:
  "(fst (RubricOption_validate d (RubricOption d0 element)) \<longleftrightarrow>
      (\<exists>n. fst (RubricOption_points d (RubricOption d0 element) None) = Some n \<and> 0 \<le> n \<and> n \<le> 999))
   \<and> (has_points_field d (RubricOption d0 element) \<longrightarrow>
        (\<forall>n. fst (RubricOption_validate
                    (snd (RubricOption_points d (RubricOption d0 element) (Some n)))
                    (RubricOption d0 element))
              \<longleftrightarrow> 0 \<le> n \<and> n \<le> 999))
   \<and> (has_points_field d (RubricOption d0 element)
        \<and> \<not> fst (RubricOption_validate d (RubricOption d0 element)) \<longrightarrow>
        RubricOption_validationErrors
          (snd (RubricOption_validate d (RubricOption d0 element))) (RubricOption d0 element)
          = [''Option points are invalid''])
   \<and> (fst (RubricOption_validate d (RubricOption d0 element))
        \<and> RubricOption_validationErrors d (RubricOption d0 element) = [] \<longrightarrow>
        RubricOption_validationErrors
          (snd (RubricOption_validate d (RubricOption d0 element))) (RubricOption d0 element) = [])"
proof -
  let ?opt = "RubricOption d0 element"
  note rng = RubricOption_range [of d0 element]
  have a: "fst (RubricOption_validate d ?opt) \<longleftrightarrow>
      (\<exists>n. fst (RubricOption_points d ?opt None) = Some n \<and> 0 \<le> n \<and> n \<le> 999)"
    by (auto simp: RubricOption_validate_def IntField_validate_def RubricOption_points_def rng
        Let_def split: option.splits)
  have b: "fst (RubricOption_validate (snd (RubricOption_points d ?opt (Some n))) ?opt)
              \<longleftrightarrow> 0 \<le> n \<and> n \<le> 999" if "has_points_field d ?opt" for n
    using IntField_get_after_set [OF that, of n]
    by (simp add: RubricOption_validate_def IntField_validate_def RubricOption_points_def rng Let_def)
  have c: "RubricOption_validationErrors (snd (RubricOption_validate d ?opt)) ?opt
          = [''Option points are invalid'']"
    if "has_points_field d ?opt" "\<not> fst (RubricOption_validate d ?opt)"
  proof -
    from that(1) obtain i r where ir: "input (pointsField ?opt) = i # r" "i < length d"
      unfolding has_points_field_def by blast
    with that(2) show ?thesis
      by (auto simp: RubricOption_validationErrors_def IntField_validationErrors_def
          RubricOption_validate_def IntField_validate_def Let_def jq_hasClass_addClass)
  qed
  have e: "RubricOption_validationErrors (snd (RubricOption_validate d ?opt)) ?opt = []"
    if "fst (RubricOption_validate d ?opt)" "RubricOption_validationErrors d ?opt = []"
    using that
    by (auto simp: RubricOption_validationErrors_def IntField_validationErrors_def
          RubricOption_validate_def IntField_validate_def Let_def split: if_splits)
  from a b c e show ?thesis by blast
qed

lemma option_item_input: "input (pointsField option_item) = [1]"
  by (simp add: option_item_def RubricOption_def IntField_def jq_find_def option_page_def
      blank_def has_class_def ancestors.simps [of _ 0] ancestors.simps [of _ "Suc 0"] parent_of_def)

lemma length_RubricOption_points [simp]:
  "length (snd (RubricOption_points d this v)) = length d"
  by (simp add: RubricOption_points_def IntField_set_def Let_def split: option.splits)

theorem RubricOption_validate_range_witness:
  "has_points_field option_page option_item
   \<and> fst (RubricOption_validate (snd (RubricOption_points option_page option_item (Some 0))) option_item)
   \<and> fst (RubricOption_validate (snd (RubricOption_points option_page option_item (Some 999))) option_item)
   \<and> \<not> fst (RubricOption_validate (snd (RubricOption_points option_page option_item (Some (- 1)))) option_item)
   \<and> \<not> fst (RubricOption_validate (snd (RubricOption_points option_page option_item (Some 1000))) option_item)
   \<and> RubricOption_validationErrors
        (snd (RubricOption_validate
                (snd (RubricOption_points option_page option_item (Some 1000))) option_item))
        option_item = [''Option points are invalid'']
   \<and> fst (RubricOption_points option_page option_item None) = Some 5
   \<and> fst (RubricOption_validate option_page option_item)
   \<and> RubricOption_validationErrors option_page option_item = []
   \<and> RubricOption_validationErrors (snd (RubricOption_validate option_page option_item)) option_item = []"
proof -
  have h: "has_points_field option_page option_item"
    by (simp add: has_points_field_def option_item_input) (simp add: option_page_def)
  then have h': "has_points_field (snd (RubricOption_points option_page option_item (Some 1000))) option_item"
    by (simp add: has_points_field_def)
  note t = RubricOption_validate_range [of _ option_page "[0]", folded option_item_def]
  from h t [of option_page]
  have set_ok: "\<And>n. fst (RubricOption_validate
                    (snd (RubricOption_points option_page option_item (Some n))) option_item)
              \<longleftrightarrow> 0 \<le> n \<and> n \<le> 999"
    by blast
  then have bad: "\<not> fst (RubricOption_validate
                    (snd (RubricOption_points option_page option_item (Some 1000))) option_item)"
    by simp
  with h' t [of "snd (RubricOption_points option_page option_item (Some 1000))"]
  have marked: "RubricOption_validationErrors
        (snd (RubricOption_validate
                (snd (RubricOption_points option_page option_item (Some 1000))) option_item))
        option_item = [''Option points are invalid'']"
    by blast
  have five: "fst (RubricOption_points option_page option_item None) = Some 5"
    by code_simp
  with t [of option_page] have ok: "fst (RubricOption_validate option_page option_item)"
    by simp
  have clean: "RubricOption_validationErrors option_page option_item = []"
    by code_simp
  with ok t [of option_page]
  have "RubricOption_validationErrors (snd (RubricOption_validate option_page option_item)) option_item = []"
    by blast
  with h set_ok marked five ok clean show ?thesis by simp
qed
section \<open>RubricCriterion: validation\<close>

lemma RubricOption_validate_snd:
  "snd (RubricOption_validate d item) =
     (if fst (RubricOption_validate d item) then d
      else jq_addClass d (input (pointsField item)) highlighted)"
  by (simp add: RubricOption_validate_def IntField_validate_def Let_def)

lemma RubricOption_validate_fst_addClass [simp]:
  "fst (RubricOption_validate (jq_addClass d sel c) item) = fst (RubricOption_validate d item)"
  by (simp add: RubricOption_validate_def IntField_validate_def IntField_get_def Let_def)

lemma length_RubricOption_validate [simp]:
  "length (snd (RubricOption_validate d item)) = length d"
  by (simp add: RubricOption_validate_snd)

lemma RubricOption_validate_fst_validate [simp]:
  "fst (RubricOption_validate (snd (RubricOption_validate d item)) item') =
     fst (RubricOption_validate d item')"
  by (simp add: RubricOption_validate_snd)

lemma validate_each_fst:
  "fst (validate_each items b d) \<longleftrightarrow> (b \<and> (\<forall>item \<in> set items. fst (RubricOption_validate d item)))"
  by (induction items arbitrary: b d) (auto simp: case_prod_unfold Let_def)

lemma validate_each_snd:
  "snd (validate_each items b d) = foldl (\<lambda>d item. snd (RubricOption_validate d item)) d items"
  by (induction items arbitrary: b d) (auto simp: case_prod_unfold Let_def)

lemma length_validate_each [simp]: "length (snd (validate_each items b d)) = length d"
  by (induction items arbitrary: b d) (auto simp: case_prod_unfold Let_def)

lemma has_class_validate_each:
  "i < length d \<Longrightarrow>
     has_class c (snd (validate_each items b d) ! i) \<longleftrightarrow>
       has_class c (d ! i) \<or>
       (c = highlighted \<and>
        (\<exists>item \<in> set items. \<not> fst (RubricOption_validate d item) \<and> i \<in> set (input (pointsField item))))"
proof (induction items arbitrary: b d)
  case Nil
  then show ?case by simp
next
  case (Cons item items)
  let ?d' = "snd (RubricOption_validate d item)"
  have step: "has_class c (?d' ! i) \<longleftrightarrow>
      has_class c (d ! i) \<or>
      (c = highlighted \<and> \<not> fst (RubricOption_validate d item) \<and> i \<in> set (input (pointsField item)))"
    using Cons.prems by (auto simp: RubricOption_validate_snd has_class_addClass)
  from Cons.prems have "i < length ?d'" by simp
  from Cons.IH [OF this, of "fst (RubricOption_validate d item) \<and> b"] step
  show ?case
    by (auto simp: case_prod_unfold Let_def)
qed

lemma errors_each_concat:
  "errors_each d items errors = errors @ concat (map (RubricOption_validationErrors d) items)"
  by (induction items arbitrary: errors) auto

lemma length_RubricCriterion_validate [simp]:
  "length (snd (RubricCriterion_validate d this)) = length d"
  by (simp add: RubricCriterion_validate_def Let_def)

lemma RubricCriterion_prompt_get:
  "fst (RubricCriterion_prompt d this None) = jq_val d (rc_promptSel this)"
  by (simp add: RubricCriterion_prompt_def stringField_def)

lemma has_class_RubricCriterion_validate:
  assumes "i < length d"
  shows "has_class c (snd (RubricCriterion_validate d this) ! i) \<longleftrightarrow>
       has_class c (d ! i) \<or>
       (c = highlighted \<and>
        ((jq_val d (rc_promptSel this) = Some '''' \<and> i \<in> set (rc_promptSel this)) \<or>
         (\<exists>item \<in> set (getAllItems (optionContainer this)).
            \<not> fst (RubricOption_validate d item) \<and> i \<in> set (input (pointsField item)))))"
  using assms
  by (auto simp: RubricCriterion_validate_def Let_def has_class_validate_each
      RubricCriterion_prompt_get has_class_addClass)

text \<open>
  Claim C3. A criterion's \<open>validate\<close> returns true exactly when its prompt is not the
  empty string and every option of its container is valid. Every option's
  \<open>validate\<close> runs, whatever the earlier results: the page after the criterion's
  \<open>validate\<close> is the page after the prompt check with every option's \<open>validate\<close>
  applied in order, so every invalid option with a points field reports its error
  afterwards. On an empty prompt the prompt field is marked, and \<open>validationErrors\<close>
  then includes \<open>''Criterion prompt is invalid.''\<close>.
\<close>

theorem RubricCriterion_validate_all:
  "(fst (RubricCriterion_validate d this) \<longleftrightarrow>
      fst (RubricCriterion_prompt d this None) \<noteq> Some '''' \<and>
      (\<forall>item \<in> set (getAllItems (optionContainer this)). fst (RubricOption_validate d item)))
   \<and> snd (RubricCriterion_validate d this) =
        foldl (\<lambda>d item. snd (RubricOption_validate d item))
          (if fst (RubricCriterion_prompt d this None) = Some ''''
           then jq_addClass d (rc_promptSel this) highlighted else d)
          (getAllItems (optionContainer this))
   \<and> (\<forall>item \<in> set (getAllItems (optionContainer this)).
        has_points_field d item \<and> \<not> fst (RubricOption_validate d item) \<longrightarrow>
        RubricOption_validationErrors (snd (RubricCriterion_validate d this)) item
          = [''Option points are invalid''])
   \<and> (fst (RubricCriterion_prompt d this None) = Some '''' \<longrightarrow>
        jq_hasClass (snd (RubricCriterion_validate d this)) (rc_promptSel this) highlighted \<and>
        ''Criterion prompt is invalid.''
          \<in> set (RubricCriterion_validationErrors (snd (RubricCriterion_validate d this)) this))"
proof -
  let ?d' = "snd (RubricCriterion_validate d this)"
  let ?items = "getAllItems (optionContainer this)"
  have a: "fst (RubricCriterion_validate d this) \<longleftrightarrow>
      fst (RubricCriterion_prompt d this None) \<noteq> Some '''' \<and>
      (\<forall>item \<in> set ?items. fst (RubricOption_validate d item))"
    by (auto simp: RubricCriterion_validate_def Let_def validate_each_fst)
  have f: "?d' = foldl (\<lambda>d item. snd (RubricOption_validate d item))
          (if fst (RubricCriterion_prompt d this None) = Some ''''
           then jq_addClass d (rc_promptSel this) highlighted else d) ?items"
    by (simp add: RubricCriterion_validate_def Let_def validate_each_snd)
  have b: "RubricOption_validationErrors ?d' item = [''Option points are invalid'']"
    if "item \<in> set ?items" "has_points_field d item" "\<not> fst (RubricOption_validate d item)"
    for item
  proof -
    from that(2) obtain i r where ir: "input (pointsField item) = i # r" "i < length d"
      unfolding has_points_field_def by blast
    with that have "has_class highlighted (?d' ! i)"
      by (auto simp: has_class_RubricCriterion_validate)
    with ir have "jq_hasClass ?d' (input (pointsField item)) highlighted"
      by (auto simp: jq_hasClass_def)
    then show ?thesis
      by (simp add: RubricOption_validationErrors_def IntField_validationErrors_def)
  qed
  have c: "jq_hasClass ?d' (rc_promptSel this) highlighted \<and>
        ''Criterion prompt is invalid.'' \<in> set (RubricCriterion_validationErrors ?d' this)"
    if "fst (RubricCriterion_prompt d this None) = Some ''''"
  proof -
    from that have v: "jq_val d (rc_promptSel this) = Some ''''"
      by (simp add: RubricCriterion_prompt_get)
    then obtain i r where ir: "rc_promptSel this = i # r" "i < length d"
      by (auto simp: jq_val_def split: list.splits if_splits)
    with v have "has_class highlighted (?d' ! i)"
      by (auto simp: has_class_RubricCriterion_validate)
    with ir have "jq_hasClass ?d' (rc_promptSel this) highlighted"
      by (auto simp: jq_hasClass_def)
    then show ?thesis
      by (simp add: RubricCriterion_validationErrors_def errors_each_concat)
  qed
  from a f b c show ?thesis by blast
qed

theorem RubricCriterion_validate_all_witness:
  "fst (RubricCriterion_prompt criterion_page criterion_item None) = Some []
   \<and> has_points_field criterion_page (RubricOption criterion_page [2])
   \<and> \<not> fst (RubricOption_validate criterion_page (RubricOption criterion_page [2]))
   \<and> \<not> fst (RubricCriterion_validate criterion_page criterion_item)
   \<and> RubricOption_validationErrors
        (snd (RubricCriterion_validate criterion_page criterion_item))
        (RubricOption criterion_page [2]) = [''Option points are invalid'']
   \<and> ''Criterion prompt is invalid.''
        \<in> set (RubricCriterion_validationErrors
                 (snd (RubricCriterion_validate criterion_page criterion_item)) criterion_item)"
proof -
  have p: "fst (RubricCriterion_prompt criterion_page criterion_item None) = Some []"
    by code_simp
  have i: "input (pointsField (RubricOption criterion_page [2])) = [3]"
    by code_simp
  then have h: "has_points_field criterion_page (RubricOption criterion_page [2])"
    by (simp add: has_points_field_def criterion_page_def)
  have n: "\<not> fst (RubricOption_validate criterion_page (RubricOption criterion_page [2]))"
    by code_simp
  have m: "RubricOption criterion_page [2] \<in> set (getAllItems (optionContainer criterion_item))"
    by (simp add: criterion_item_def RubricCriterion_def getAllItems_def)
  from p h n m RubricCriterion_validate_all [of criterion_page criterion_item]
  show ?thesis by blast
qed

section \<open>TrainingExample: validation\<close>

lemma jq_val_single: "jq_val d [i] = Some s \<longleftrightarrow> i < length d \<and> el_value (d ! i) = s"
  by (auto simp: jq_val_def)

lemma jq_hasClass_single: "jq_hasClass d [i] c \<longleftrightarrow> i < length d \<and> has_class c (d ! i)"
  by (simp add: jq_hasClass_def)

lemma nth_jq_addClass:
  "i < length d \<Longrightarrow>
     jq_addClass d sel c ! i =
       (if i \<in> set sel then (d ! i)\<lparr>el_classes := insert c (el_classes (d ! i))\<rparr> else d ! i)"
  by (simp add: jq_addClass_def nth_dom_update)

lemma nth_jq_removeClass:
  "i < length d \<Longrightarrow>
     jq_removeClass d sel c ! i =
       (if i \<in> set sel then (d ! i)\<lparr>el_classes := el_classes (d ! i) - {c}\<rparr> else d ! i)"
  by (simp add: jq_removeClass_def nth_dom_update)

lemma length_example_validate_each [simp]:
  "length (snd (example_validate_each sel b d)) = length d"
  by (induction sel arbitrary: b d) (auto simp: Let_def)

lemma example_validate_each_fst:
  "fst (example_validate_each sel b d) \<longleftrightarrow> (b \<and> (\<forall>i \<in> set sel. jq_val d [i] \<noteq> Some ''''))"
  by (induction sel arbitrary: b d) (auto simp: Let_def)

lemma nth_example_validate_each:
  "i < length d \<Longrightarrow>
     snd (example_validate_each sel b d) ! i =
       (if i \<in> set sel \<and> el_value (d ! i) = ''''
        then (d ! i)\<lparr>el_classes := insert highlighted (el_classes (d ! i))\<rparr>
        else d ! i)"
proof (induction sel arbitrary: b d)
  case Nil
  then show ?case by simp
next
  case (Cons this rest)
  let ?d1 = "if jq_val d [this] = Some '''' then jq_addClass d [this] highlighted else d"
  have len: "i < length ?d1" using Cons.prems by simp
  have val: "el_value (?d1 ! i) = el_value (d ! i)"
    using Cons.prems by (simp add: nth_jq_addClass)
  show ?case
    using Cons.IH [OF len, of "jq_val d [this] \<noteq> Some '''' \<and> b"] Cons.prems
    by (auto simp: Let_def nth_jq_addClass jq_val_single)
qed

lemma example_errors_each_replicate:
  "example_errors_each msg d sel errors =
     errors @ replicate (length (filter (\<lambda>i. jq_hasClass d [i] highlighted) sel)) msg"
  by (induction sel arbitrary: errors) (auto simp: Let_def replicate_app_Cons_same)

lemma length_example_clear_each [simp]: "length (example_clear_each sel d) = length d"
  by (induction sel arbitrary: d) auto

lemma has_class_example_clear_each:
  "i < length d \<Longrightarrow>
     has_class c (example_clear_each sel d ! i) \<longleftrightarrow>
       has_class c (d ! i) \<and> \<not> (c = highlighted \<and> i \<in> set sel)"
  by (induction sel arbitrary: d) (auto simp: has_class_removeClass)

lemma example_validate_each_unchanged:
  "fst (example_validate_each sel True d) \<Longrightarrow> snd (example_validate_each sel True d) = d"
  by (rule nth_equalityI) (auto simp: nth_example_validate_each example_validate_each_fst jq_val_single)

text \<open>
  Claim C5, with the condition it needs. A training example's \<open>validate\<close> returns false
  exactly when one of its dropdowns has the empty value. It changes exactly the failing
  dropdowns, by adding the mark to them; it removes no mark, so a dropdown marked by an
  earlier \<open>validate\<close> stays marked. \<open>validationErrors\<close> then returns one message
  for each marked dropdown (not one for the example). Only when no dropdown of the example
  carries the mark before \<open>validate\<close> is that one message for each failing dropdown,
  and then an example with exactly one unselected dropdown yields exactly one message.
  Without that condition the last part fails: see the page \<open>reselected_page\<close> below.
\<close>

theorem TrainingExample_validate_marks:
  "(fst (TrainingExample_validate d this) \<longleftrightarrow>
      \<not> (\<exists>i \<in> set (te_criteria this). jq_val d [i] = Some ''''))
   \<and> (\<forall>i < length d.
        snd (TrainingExample_validate d this) ! i =
          (if i \<in> set (te_criteria this) \<and> jq_val d [i] = Some ''''
           then (d ! i)\<lparr>el_classes := insert highlighted (el_classes (d ! i))\<rparr>
           else d ! i))
   \<and> TrainingExample_validationErrors (snd (TrainingExample_validate d this)) this =
        replicate
          (length (filter (\<lambda>i. jq_hasClass (snd (TrainingExample_validate d this)) [i] highlighted)
                     (te_criteria this)))
          ''Student training example is invalid.''
   \<and> ((\<forall>i \<in> set (te_criteria this). \<not> jq_hasClass d [i] highlighted) \<longrightarrow>
        TrainingExample_validationErrors (snd (TrainingExample_validate d this)) this =
          replicate (length (filter (\<lambda>i. jq_val d [i] = Some '''') (te_criteria this)))
            ''Student training example is invalid.'')
   \<and> ((\<forall>i \<in> set (te_criteria this). \<not> jq_hasClass d [i] highlighted) \<and>
       length (filter (\<lambda>i. jq_val d [i] = Some '''') (te_criteria this)) = 1 \<longrightarrow>
        \<not> fst (TrainingExample_validate d this) \<and>
        TrainingExample_validationErrors (snd (TrainingExample_validate d this)) this =
          [''Student training example is invalid.''])"
proof -
  let ?d' = "snd (TrainingExample_validate d this)"
  let ?sel = "te_criteria this"
  let ?msg = "''Student training example is invalid.''"
  have a: "fst (TrainingExample_validate d this) \<longleftrightarrow>
      \<not> (\<exists>i \<in> set ?sel. jq_val d [i] = Some '''')"
    by (auto simp: TrainingExample_validate_def example_validate_each_fst)
  have b: "\<forall>i < length d. ?d' ! i =
          (if i \<in> set ?sel \<and> jq_val d [i] = Some ''''
           then (d ! i)\<lparr>el_classes := insert highlighted (el_classes (d ! i))\<rparr>
           else d ! i)"
    by (simp add: TrainingExample_validate_def nth_example_validate_each jq_val_single)
  have c: "TrainingExample_validationErrors ?d' this =
        replicate (length (filter (\<lambda>i. jq_hasClass ?d' [i] highlighted) ?sel)) ?msg"
    by (simp add: TrainingExample_validationErrors_def example_errors_each_replicate)
  have len: "length ?d' = length d"
    by (simp add: TrainingExample_validate_def)
  have e: "TrainingExample_validationErrors ?d' this =
          replicate (length (filter (\<lambda>i. jq_val d [i] = Some '''') ?sel)) ?msg"
    if fresh: "\<forall>i \<in> set ?sel. \<not> jq_hasClass d [i] highlighted"
  proof -
    have "jq_hasClass ?d' [i] highlighted \<longleftrightarrow> jq_val d [i] = Some ''''" if "i \<in> set ?sel" for i
      using that fresh b len
      by (auto simp: jq_hasClass_single jq_val_single has_class_def split: if_splits)
    then have "filter (\<lambda>i. jq_hasClass ?d' [i] highlighted) ?sel
                 = filter (\<lambda>i. jq_val d [i] = Some '''') ?sel"
      by (intro filter_cong) auto
    with c show ?thesis by simp
  qed
  have f: "\<not> fst (TrainingExample_validate d this) \<and>
        TrainingExample_validationErrors ?d' this = [?msg]"
    if "\<forall>i \<in> set ?sel. \<not> jq_hasClass d [i] highlighted"
      "length (filter (\<lambda>i. jq_val d [i] = Some '''') ?sel) = 1"
  proof -
    from that(2) have "filter (\<lambda>i. jq_val d [i] = Some '''') ?sel \<noteq> []" by auto
    then have "\<exists>i \<in> set ?sel. jq_val d [i] = Some ''''"
      by (simp add: filter_empty_conv)
    with a e [OF that(1)] that(2) show ?thesis by simp
  qed
  from a b c e f show ?thesis by blast
qed

theorem TrainingExample_validate_marks_witness:
  "te_criteria training_item = [1, 2]
   \<and> \<not> jq_hasClass training_page [1] highlighted
   \<and> \<not> jq_hasClass training_page [2] highlighted
   \<and> length (filter (\<lambda>i. jq_val training_page [i] = Some []) (te_criteria training_item)) = 1
   \<and> \<not> fst (TrainingExample_validate training_page training_item)
   \<and> TrainingExample_validationErrors
        (snd (TrainingExample_validate training_page training_item)) training_item
        = [''Student training example is invalid.'']"
proof -
  have c: "te_criteria training_item = [1, 2]"
    by code_simp
  have m: "\<not> jq_hasClass training_page [1] highlighted" "\<not> jq_hasClass training_page [2] highlighted"
    by code_simp+
  have n: "length (filter (\<lambda>i. jq_val training_page [i] = Some []) (te_criteria training_item)) = 1"
    by code_simp
  from m have fresh: "\<forall>i \<in> set (te_criteria training_item). \<not> jq_hasClass training_page [i] highlighted"
    by (simp add: c)
  from fresh n TrainingExample_validate_marks [of training_page training_item]
  have "\<not> fst (TrainingExample_validate training_page training_item) \<and>
        TrainingExample_validationErrors
          (snd (TrainingExample_validate training_page training_item)) training_item
          = [''Student training example is invalid.'']"
    by blast
  with c m n show ?thesis by blast
qed

text \<open>
  Claim C5 as the specification words it, refuted. On \<open>reselected_page\<close> the example has
  exactly one unselected dropdown, the second; the first holds a value but still carries
  the mark of the earlier \<open>validate\<close>. \<open>validate\<close> returns false and marks the second
  dropdown, so that both are marked although only one fails, and \<open>validationErrors\<close>
  returns two messages, not one.
\<close>

theorem TrainingExample_stale_mark_counterexample:
  "te_criteria training_item = [1, 2]
   \<and> jq_val reselected_page [1] = Some ''fair''
   \<and> jq_val reselected_page [2] = Some []
   \<and> \<not> fst (TrainingExample_validate reselected_page training_item)
   \<and> jq_hasClass (snd (TrainingExample_validate reselected_page training_item)) [1] highlighted
   \<and> jq_hasClass (snd (TrainingExample_validate reselected_page training_item)) [2] highlighted
   \<and> TrainingExample_validationErrors
        (snd (TrainingExample_validate reselected_page training_item)) training_item
        = [''Student training example is invalid.'', ''Student training example is invalid.'']"
proof -
  have a: "te_criteria training_item = [1, 2]"
    by code_simp
  have b: "jq_val reselected_page [1] = Some ''fair''"
    by code_simp
  have c: "jq_val reselected_page [2] = Some []"
    by code_simp
  have e: "\<not> fst (TrainingExample_validate reselected_page training_item)"
    by code_simp
  have f: "jq_hasClass (snd (TrainingExample_validate reselected_page training_item)) [1] highlighted"
    by code_simp
  have g: "jq_hasClass (snd (TrainingExample_validate reselected_page training_item)) [2] highlighted"
    by code_simp
  have h: "TrainingExample_validationErrors
        (snd (TrainingExample_validate reselected_page training_item)) training_item
        = [''Student training example is invalid.'', ''Student training example is invalid.'']"
    by code_simp
  from a b c e f g h show ?thesis by blast
qed

section \<open>Clearing the marks\<close>

lemma length_clear_each [simp]: "length (clear_each items d) = length d"
  by (induction items arbitrary: d)
    (auto simp: RubricOption_clearValidationErrors_def IntField_clearValidationErrors_def)

lemma has_class_clear_each:
  "i < length d \<Longrightarrow>
     has_class c (clear_each items d ! i) \<longleftrightarrow>
       has_class c (d ! i) \<and>
       \<not> (c = highlighted \<and> (\<exists>item \<in> set items. i \<in> set (input (pointsField item))))"
  by (induction items arbitrary: d)
    (auto simp: RubricOption_clearValidationErrors_def IntField_clearValidationErrors_def
      has_class_removeClass)

lemma RubricOption_validationErrors_Nil:
  "RubricOption_validationErrors d item = [] \<longleftrightarrow> \<not> jq_hasClass d (input (pointsField item)) highlighted"
  by (simp add: RubricOption_validationErrors_def IntField_validationErrors_def)

lemma RubricCriterion_validationErrors_Nil:
  "RubricCriterion_validationErrors d this = [] \<longleftrightarrow>
     \<not> jq_hasClass d (rc_promptSel this) highlighted \<and>
     (\<forall>item \<in> set (getAllItems (optionContainer this)).
        \<not> jq_hasClass d (input (pointsField item)) highlighted)"
  by (auto simp: RubricCriterion_validationErrors_def errors_each_concat
      RubricOption_validationErrors_Nil)

lemma TrainingExample_validationErrors_Nil:
  "TrainingExample_validationErrors d this = [] \<longleftrightarrow>
     (\<forall>i \<in> set (te_criteria this). \<not> jq_hasClass d [i] highlighted)"
  by (auto simp: TrainingExample_validationErrors_def example_errors_each_replicate
      filter_empty_conv)

lemma RubricOption_clear_errors:
  "RubricOption_validationErrors (RubricOption_clearValidationErrors d item) item = []"
  by (simp add: RubricOption_validationErrors_Nil RubricOption_clearValidationErrors_def
      IntField_clearValidationErrors_def jq_hasClass_removeClass)

lemma RubricCriterion_clear_errors:
  "RubricCriterion_validationErrors (RubricCriterion_clearValidationErrors d this) this = []"
  by (auto simp: RubricCriterion_validationErrors_Nil RubricCriterion_clearValidationErrors_def
      jq_hasClass_def has_class_clear_each has_class_removeClass)

lemma TrainingExample_clear_errors:
  "TrainingExample_validationErrors (TrainingExample_clearValidationErrors d this) this = []"
  by (auto simp: TrainingExample_validationErrors_Nil TrainingExample_clearValidationErrors_def
      jq_hasClass_single has_class_example_clear_each)

lemma nth_clear_each:
  "i < length d \<Longrightarrow>
     clear_each items d ! i =
       (if \<exists>item \<in> set items. i \<in> set (input (pointsField item))
        then (d ! i)\<lparr>el_classes := el_classes (d ! i) - {highlighted}\<rparr>
        else d ! i)"
  by (induction items arbitrary: d)
    (auto simp: RubricOption_clearValidationErrors_def IntField_clearValidationErrors_def
      nth_jq_removeClass)

lemma nth_example_clear_each:
  "i < length d \<Longrightarrow>
     example_clear_each sel d ! i =
       (if i \<in> set sel then (d ! i)\<lparr>el_classes := el_classes (d ! i) - {highlighted}\<rparr> else d ! i)"
  by (induction sel arbitrary: d) (auto simp: nth_jq_removeClass)

lemma RubricOption_clear_idem:
  "RubricOption_clearValidationErrors (RubricOption_clearValidationErrors d item) item
     = RubricOption_clearValidationErrors d item"
  by (rule nth_equalityI)
    (auto simp: RubricOption_clearValidationErrors_def IntField_clearValidationErrors_def
      nth_jq_removeClass)

lemma RubricCriterion_clear_idem:
  "RubricCriterion_clearValidationErrors (RubricCriterion_clearValidationErrors d this) this
     = RubricCriterion_clearValidationErrors d this"
  by (rule nth_equalityI)
    (auto simp: RubricCriterion_clearValidationErrors_def nth_clear_each nth_jq_removeClass)

lemma TrainingExample_clear_idem:
  "TrainingExample_clearValidationErrors (TrainingExample_clearValidationErrors d this) this
     = TrainingExample_clearValidationErrors d this"
  by (rule nth_equalityI)
    (auto simp: TrainingExample_clearValidationErrors_def nth_example_clear_each)

text \<open>
  Claim C9. For an option, a criterion and a training example, \<open>validationErrors\<close> is
  empty after \<open>clearValidationErrors\<close>, and empty again after a second
  \<open>clearValidationErrors\<close>; the second call leaves the page as the first left it.
\<close>

theorem clearValidationErrors_twice:
  "RubricOption_validationErrors (RubricOption_clearValidationErrors d opt) opt = []
   \<and> RubricOption_validationErrors
       (RubricOption_clearValidationErrors (RubricOption_clearValidationErrors d opt) opt) opt = []
   \<and> RubricCriterion_validationErrors (RubricCriterion_clearValidationErrors d crit) crit = []
   \<and> RubricCriterion_validationErrors
       (RubricCriterion_clearValidationErrors (RubricCriterion_clearValidationErrors d crit) crit) crit = []
   \<and> TrainingExample_validationErrors (TrainingExample_clearValidationErrors d ex) ex = []
   \<and> TrainingExample_validationErrors
       (TrainingExample_clearValidationErrors (TrainingExample_clearValidationErrors d ex) ex) ex = []
   \<and> RubricOption_clearValidationErrors (RubricOption_clearValidationErrors d opt) opt
       = RubricOption_clearValidationErrors d opt
   \<and> RubricCriterion_clearValidationErrors (RubricCriterion_clearValidationErrors d crit) crit
       = RubricCriterion_clearValidationErrors d crit
   \<and> TrainingExample_clearValidationErrors (TrainingExample_clearValidationErrors d ex) ex
       = TrainingExample_clearValidationErrors d ex"
  by (simp only: RubricOption_clear_errors RubricCriterion_clear_errors TrainingExample_clear_errors
      RubricOption_clear_idem RubricCriterion_clear_idem TrainingExample_clear_idem simp_thms)

section \<open>Validation only adds marks\<close>

lemma nth_jq_set_val:
  "i < length d \<Longrightarrow>
     jq_set_val d sel s ! i = (if i \<in> set sel then (d ! i)\<lparr>el_value := s\<rparr> else d ! i)"
  by (simp add: jq_set_val_def nth_dom_update)

lemma has_class_jq_set_val [simp]:
  "i < length d \<Longrightarrow> has_class c (jq_set_val d sel s ! i) = has_class c (d ! i)"
  by (simp add: nth_jq_set_val has_class_def)

lemma jq_hasClass_jq_set_val [simp]: "jq_hasClass (jq_set_val d sel s) sel' c = jq_hasClass d sel' c"
  by (auto simp: jq_hasClass_def)

lemma jq_val_validate_each [simp]: "jq_val (snd (validate_each items b d)) sel = jq_val d sel"
  by (induction items arbitrary: b d) (auto simp: case_prod_unfold Let_def RubricOption_validate_snd)

lemma jq_val_RubricCriterion_validate [simp]:
  "jq_val (snd (RubricCriterion_validate d this)) sel = jq_val d sel"
  by (simp add: RubricCriterion_validate_def Let_def)

lemma validate_each_unchanged:
  "\<forall>item \<in> set items. fst (RubricOption_validate d item) \<Longrightarrow> snd (validate_each items b d) = d"
  by (induction items arbitrary: b) (auto simp: case_prod_unfold Let_def RubricOption_validate_snd)

lemma RubricCriterion_validate_unchanged:
  "fst (RubricCriterion_validate d this) \<Longrightarrow> snd (RubricCriterion_validate d this) = d"
  by (auto simp: RubricCriterion_validate_def Let_def validate_each_fst validate_each_unchanged)

lemma TrainingExample_validate_unchanged:
  "fst (TrainingExample_validate d this) \<Longrightarrow> snd (TrainingExample_validate d this) = d"
  by (simp add: TrainingExample_validate_def example_validate_each_unchanged)

lemma validate_keeps_classes:
  assumes "i < length d" "has_class c (d ! i)"
  shows "has_class c (snd (RubricOption_validate d opt) ! i)"
    and "has_class c (snd (RubricCriterion_validate d crit) ! i)"
    and "has_class c (snd (TrainingExample_validate d ex) ! i)"
proof -
  show "has_class c (snd (RubricOption_validate d opt) ! i)"
    using assms by (simp add: RubricOption_validate_snd has_class_addClass)
  show "has_class c (snd (RubricCriterion_validate d crit) ! i)"
    using assms by (simp add: has_class_RubricCriterion_validate)
  show "has_class c (snd (TrainingExample_validate d ex) ! i)"
    using assms
    by (simp add: TrainingExample_validate_def nth_example_validate_each has_class_def)
qed

lemma criterion_stale:
  assumes empty: "fst (RubricCriterion_prompt d crit None) = Some ''''"
    and s: "s \<noteq> ''''"
    and valid: "\<forall>item \<in> set (getAllItems (optionContainer crit)).
                  fst (RubricOption_validate (criterion_corrected d crit s) item)"
  shows "\<not> fst (RubricCriterion_validate d crit)"
    and "fst (RubricCriterion_validate (criterion_corrected d crit s) crit)"
    and "''Criterion prompt is invalid.''
           \<in> set (RubricCriterion_validationErrors
                    (snd (RubricCriterion_validate (criterion_corrected d crit s) crit)) crit)"
proof -
  let ?d1 = "snd (RubricCriterion_validate d crit)"
  let ?d2 = "criterion_corrected d crit s"
  from empty have v: "jq_val d (rc_promptSel crit) = Some ''''"
    by (simp add: RubricCriterion_prompt_get)
  then obtain i r where ir: "rc_promptSel crit = i # r" "i < length d"
    by (auto simp: jq_val_def split: list.splits if_splits)
  from empty show "\<not> fst (RubricCriterion_validate d crit)"
    by (simp add: RubricCriterion_validate_def Let_def validate_each_fst)
  have d2: "?d2 = jq_set_val ?d1 (rc_promptSel crit) s"
    by (simp add: criterion_corrected_def RubricCriterion_prompt_def stringField_def Let_def)
  from v have "jq_val ?d2 (rc_promptSel crit) = Some s"
    by (simp add: d2 jq_val_set_val)
  with s valid show ok: "fst (RubricCriterion_validate ?d2 crit)"
    by (simp add: RubricCriterion_validate_def Let_def validate_each_fst RubricCriterion_prompt_get)
  from ir v have "has_class highlighted (?d1 ! i)"
    by (simp add: has_class_RubricCriterion_validate)
  with ir have "jq_hasClass ?d2 (rc_promptSel crit) highlighted"
    by (auto simp: d2 jq_hasClass_def)
  then show "''Criterion prompt is invalid.''
           \<in> set (RubricCriterion_validationErrors (snd (RubricCriterion_validate ?d2 crit)) crit)"
    by (simp add: RubricCriterion_validate_unchanged [OF ok] RubricCriterion_validationErrors_def
        errors_each_concat)
qed

lemma example_stale:
  assumes j: "j \<in> set (te_criteria ex)" "jq_val d [j] = Some ''''"
    and others: "\<forall>i \<in> set (te_criteria ex). i \<noteq> j \<longrightarrow> jq_val d [i] \<noteq> Some ''''"
    and s: "s \<noteq> ''''"
  shows "\<not> fst (TrainingExample_validate d ex)"
    and "fst (TrainingExample_validate (example_corrected d ex j s) ex)"
    and "TrainingExample_validationErrors
           (snd (TrainingExample_validate (example_corrected d ex j s) ex)) ex \<noteq> []"
proof -
  let ?d1 = "snd (TrainingExample_validate d ex)"
  let ?d2 = "example_corrected d ex j s"
  from j show "\<not> fst (TrainingExample_validate d ex)"
    by (auto simp: TrainingExample_validate_def example_validate_each_fst)
  from j have jd: "j < length d" by (simp add: jq_val_single)
  have len: "length ?d1 = length d" by (simp add: TrainingExample_validate_def)
  have "jq_val ?d2 [i] \<noteq> Some ''''" if "i \<in> set (te_criteria ex)" for i
    using that others s len
    by (auto simp: example_corrected_def jq_val_single nth_jq_set_val
        TrainingExample_validate_def nth_example_validate_each)
  then show ok: "fst (TrainingExample_validate ?d2 ex)"
    by (simp add: TrainingExample_validate_def example_validate_each_fst)
  from j jd have "has_class highlighted (?d1 ! j)"
    by (simp add: TrainingExample_validate_def nth_example_validate_each jq_val_single has_class_def)
  with jd len have "jq_hasClass ?d2 [j] highlighted"
    by (simp add: example_corrected_def jq_hasClass_single)
  with j(1) show "TrainingExample_validationErrors (snd (TrainingExample_validate ?d2 ex)) ex \<noteq> []"
    by (auto simp: TrainingExample_validate_unchanged [OF ok] TrainingExample_validationErrors_Nil)
qed

text \<open>
  Claim C10. \<open>validate\<close> only adds marks: a class an element carries before an
  item's \<open>validate\<close> (of an option, a criterion, a training example, an AI example
  or a menu item) it carries afterwards, and a \<open>validate\<close> that returns true leaves
  the page as it is. So once a criterion's empty prompt has made \<open>validate\<close> fail
  and the prompt is corrected, the next \<open>validate\<close> returns true and
  \<open>validationErrors\<close> still has the prompt's message, until
  \<open>clearValidationErrors\<close> empties it; the same holds for a training example whose
  one unselected dropdown is corrected.
\<close>

theorem validate_only_adds_marks:
  "(\<forall>i < length d. \<forall>c. has_class c (d ! i) \<longrightarrow>
      has_class c (snd (RubricOption_validate d opt) ! i) \<and>
      has_class c (snd (RubricCriterion_validate d crit) ! i) \<and>
      has_class c (snd (TrainingExample_validate d ex) ! i))
   \<and> (fst (RubricOption_validate d opt) \<longrightarrow> snd (RubricOption_validate d opt) = d)
   \<and> (fst (RubricCriterion_validate d crit) \<longrightarrow> snd (RubricCriterion_validate d crit) = d)
   \<and> (fst (TrainingExample_validate d ex) \<longrightarrow> snd (TrainingExample_validate d ex) = d)
   \<and> (\<forall>i < length d. \<forall>c. has_class c (d ! i) \<longrightarrow>
        has_class c (snd (AIExample_validate d ai) ! i) \<and>
        has_class c (snd (AIExampleMenuItem_validate d mi) ! i))
   \<and> (fst (AIExample_validate d ai) \<longrightarrow> snd (AIExample_validate d ai) = d)
   \<and> snd (AIExampleMenuItem_validate d mi) = d
   \<and> (fst (RubricCriterion_prompt d crit None) = Some '''' \<and> s \<noteq> '''' \<and>
       (\<forall>item \<in> set (getAllItems (optionContainer crit)).
          fst (RubricOption_validate (criterion_corrected d crit s) item)) \<longrightarrow>
       \<not> fst (RubricCriterion_validate d crit) \<and>
       fst (RubricCriterion_validate (criterion_corrected d crit s) crit) \<and>
       ''Criterion prompt is invalid.''
         \<in> set (RubricCriterion_validationErrors
                  (snd (RubricCriterion_validate (criterion_corrected d crit s) crit)) crit) \<and>
       RubricCriterion_validationErrors
         (RubricCriterion_clearValidationErrors
            (snd (RubricCriterion_validate (criterion_corrected d crit s) crit)) crit) crit = [])
   \<and> (j \<in> set (te_criteria ex) \<and> jq_val d [j] = Some '''' \<and> s \<noteq> '''' \<and>
       (\<forall>i \<in> set (te_criteria ex). i \<noteq> j \<longrightarrow> jq_val d [i] \<noteq> Some '''') \<longrightarrow>
       \<not> fst (TrainingExample_validate d ex) \<and>
       fst (TrainingExample_validate (example_corrected d ex j s) ex) \<and>
       TrainingExample_validationErrors
         (snd (TrainingExample_validate (example_corrected d ex j s) ex)) ex \<noteq> [] \<and>
       TrainingExample_validationErrors
         (TrainingExample_clearValidationErrors
            (snd (TrainingExample_validate (example_corrected d ex j s) ex)) ex) ex = [])"
proof -
  have keep: "\<forall>i < length d. \<forall>c. has_class c (d ! i) \<longrightarrow>
      has_class c (snd (RubricOption_validate d opt) ! i) \<and>
      has_class c (snd (RubricCriterion_validate d crit) ! i) \<and>
      has_class c (snd (TrainingExample_validate d ex) ! i)"
    using validate_keeps_classes by blast
  have same: "fst (RubricOption_validate d opt) \<longrightarrow> snd (RubricOption_validate d opt) = d"
    by (simp add: RubricOption_validate_snd)
  have ai: "\<forall>i < length d. \<forall>c. has_class c (d ! i) \<longrightarrow>
        has_class c (snd (AIExample_validate d ai) ! i) \<and>
        has_class c (snd (AIExampleMenuItem_validate d mi) ! i)"
    by (simp add: AIExample_validate_def AIExampleMenuItem_validate_def nth_example_validate_each
        has_class_def)
  have ai_same: "fst (AIExample_validate d ai) \<longrightarrow> snd (AIExample_validate d ai) = d"
    by (simp add: AIExample_validate_def example_validate_each_unchanged)
  have mi_same: "snd (AIExampleMenuItem_validate d mi) = d"
    by (simp add: AIExampleMenuItem_validate_def)
  from keep same ai ai_same mi_same show ?thesis
    using RubricCriterion_validate_unchanged [of d crit] TrainingExample_validate_unchanged [of d ex]
      criterion_stale [of d crit s] example_stale [of j ex d s]
      RubricCriterion_clear_errors TrainingExample_clear_errors
    by blast
qed

theorem validate_only_adds_marks_witness:
  "fst (RubricCriterion_prompt stale_page stale_criterion None) = Some []
   \<and> fst (RubricOption_validate (criterion_corrected stale_page stale_criterion ''Is it clear?'')
            (RubricOption stale_page [2]))
   \<and> \<not> fst (RubricCriterion_validate stale_page stale_criterion)
   \<and> fst (RubricCriterion_validate
            (criterion_corrected stale_page stale_criterion ''Is it clear?'') stale_criterion)
   \<and> ''Criterion prompt is invalid.''
        \<in> set (RubricCriterion_validationErrors
                 (snd (RubricCriterion_validate
                         (criterion_corrected stale_page stale_criterion ''Is it clear?'')
                         stale_criterion))
                 stale_criterion)
   \<and> snd (RubricCriterion_validate
            (criterion_corrected stale_page stale_criterion ''Is it clear?'') stale_criterion)
       = criterion_corrected stale_page stale_criterion ''Is it clear?''
   \<and> has_class ''openassessment_criterion_prompt'' (stale_page ! 1)
   \<and> has_class ''openassessment_criterion_prompt''
        (snd (RubricCriterion_validate stale_page stale_criterion) ! 1)
   \<and> te_criteria training_item = [1, 2]
   \<and> jq_val training_page [1] = Some []
   \<and> jq_val training_page [2] \<noteq> Some []
   \<and> \<not> fst (TrainingExample_validate training_page training_item)
   \<and> fst (TrainingExample_validate (example_corrected training_page training_item 1 ''fair'')
            training_item)
   \<and> TrainingExample_validationErrors
        (snd (TrainingExample_validate (example_corrected training_page training_item 1 ''fair'')
                training_item))
        training_item \<noteq> []"
proof -
  have p: "fst (RubricCriterion_prompt stale_page stale_criterion None) = Some []"
    by code_simp
  have v: "fst (RubricOption_validate (criterion_corrected stale_page stale_criterion ''Is it clear?'')
            (RubricOption stale_page [2]))"
    by code_simp
  have items: "getAllItems (optionContainer stale_criterion) = [RubricOption stale_page [2]]"
    by (simp add: stale_criterion_def RubricCriterion_def getAllItems_def)
  from v items have all: "\<forall>item \<in> set (getAllItems (optionContainer stale_criterion)).
      fst (RubricOption_validate (criterion_corrected stale_page stale_criterion ''Is it clear?'') item)"
    by simp
  have c: "te_criteria training_item = [1, 2]"
    by code_simp
  have e: "jq_val training_page [1] = Some []" "jq_val training_page [2] \<noteq> Some []"
    by code_simp+
  from c e have others: "1 \<in> set (te_criteria training_item)"
    "\<forall>i \<in> set (te_criteria training_item). i \<noteq> 1 \<longrightarrow> jq_val training_page [i] \<noteq> Some []"
    by simp_all
  have s: "''Is it clear?'' \<noteq> []" "''fair'' \<noteq> []" by simp_all
  from p s(1) all
    validate_only_adds_marks [where d = stale_page and crit = stale_criterion and s = "''Is it clear?''"]
  have crit: "\<not> fst (RubricCriterion_validate stale_page stale_criterion)
   \<and> fst (RubricCriterion_validate
            (criterion_corrected stale_page stale_criterion ''Is it clear?'') stale_criterion)
   \<and> ''Criterion prompt is invalid.''
        \<in> set (RubricCriterion_validationErrors
                 (snd (RubricCriterion_validate
                         (criterion_corrected stale_page stale_criterion ''Is it clear?'')
                         stale_criterion))
                 stale_criterion)"
    by blast
  from others e(1) s(2)
    validate_only_adds_marks [where d = training_page and ex = training_item and s = "''fair''" and j = 1]
  have ex: "\<not> fst (TrainingExample_validate training_page training_item)
   \<and> fst (TrainingExample_validate (example_corrected training_page training_item 1 ''fair'')
            training_item)
   \<and> TrainingExample_validationErrors
        (snd (TrainingExample_validate (example_corrected training_page training_item 1 ''fair'')
                training_item))
        training_item \<noteq> []"
    by blast
  from crit validate_only_adds_marks
      [where d = "criterion_corrected stale_page stale_criterion ''Is it clear?''"
         and crit = stale_criterion]
  have same: "snd (RubricCriterion_validate
            (criterion_corrected stale_page stale_criterion ''Is it clear?'') stale_criterion)
       = criterion_corrected stale_page stale_criterion ''Is it clear?''"
    by blast
  have k: "has_class ''openassessment_criterion_prompt'' (stale_page ! 1)" "1 < length stale_page"
    by code_simp+
  with validate_only_adds_marks [where d = stale_page and crit = stale_criterion]
  have kept: "has_class ''openassessment_criterion_prompt''
        (snd (RubricCriterion_validate stale_page stale_criterion) ! 1)"
    by blast
  from p v crit same k(1) kept c e ex show ?thesis by blast
qed

section \<open>Setting attributes keeps the tree and the classes\<close>

lemma length_jq_set_attr [simp]: "length (jq_set_attr d sel name v) = length d"
  by (simp add: jq_set_attr_def split: option.splits)

lemma nth_jq_set_attr:
  "i < length d \<Longrightarrow>
     jq_set_attr d sel name (Some s) ! i =
       (if i \<in> set sel then set_attr name s (d ! i) else d ! i)"
  by (simp add: jq_set_attr_def nth_dom_update)

lemma ancestors_cong:
  "(\<And>j. parent_of d' j = parent_of d j) \<Longrightarrow> ancestors d' i = ancestors d i"
proof (induction d i rule: ancestors.induct)
  case (1 d i)
  show ?case
  proof (cases "parent_of d i")
    case None
    with 1 show ?thesis by (simp add: ancestors.simps [of _ i])
  next
    case (Some p)
    with 1 have "ancestors d' p = ancestors d p" by simp
    with Some 1(2) show ?thesis by (simp add: ancestors.simps [of _ i])
  qed
qed

lemma parent_of_jq_set_attr [simp]: "parent_of (jq_set_attr d sel name v) i = parent_of d i"
  by (cases v) (auto simp: parent_of_def jq_set_attr_def nth_dom_update)

lemma ancestors_jq_set_attr [simp]: "ancestors (jq_set_attr d sel name v) i = ancestors d i"
  by (rule ancestors_cong) simp

lemma has_class_jq_set_attr [simp]:
  "i < length d \<Longrightarrow> has_class c (jq_set_attr d sel name v ! i) = has_class c (d ! i)"
  by (cases v) (auto simp: jq_set_attr_def nth_dom_update has_class_def)

lemma jq_find_class_jq_set_attr [simp]:
  "jq_find (jq_set_attr d sel name v) ctx (has_class c) = jq_find d ctx (has_class c)"
  by (auto simp: jq_find_def intro: filter_cong)

section \<open>Notifications\<close>

text \<open>
  Claim C6. Every handler that notifies fires its notification as its last act, on
  the page as the handler has left it. \<open>RubricOption_addHandler\<close> passes the
  subscribers a page on which the new identifier is already the \<^verbatim>\<open>data-option\<close>
  of the option and the \<^verbatim>\<open>value\<close> attribute of its name field, and the payload's
  \<^verbatim>\<open>name\<close> is that identifier. The other four handlers change nothing before they
  notify.
\<close>

theorem notification_after_mutation:
  "(\<exists>d' payload.
       (\<forall>notificationFired.
          RubricOption_addHandler notificationFired d this = notificationFired ''optionAdd'' payload d') \<and>
       map_of payload ''name'' =
         Some (Str (createUniqueName d
                      (jq_find d (jq_parent d (ro_element this))
                         (has_class ''openassessment_criterion_option''))
                      ''data-option'')) \<and>
       length d' = length d \<and>
       (\<forall>i \<in> set (ro_element this). i < length d \<longrightarrow>
          attr_of (d' ! i) ''data-option'' =
            Some (createUniqueName d
                    (jq_find d (jq_parent d (ro_element this))
                       (has_class ''openassessment_criterion_option''))
                    ''data-option'')) \<and>
       (\<forall>i \<in> set (jq_find d (ro_element this) (has_class ''openassessment_criterion_option_name'')).
          attr_of (d' ! i) ''value'' =
            Some (createUniqueName d
                    (jq_find d (jq_parent d (ro_element this))
                       (has_class ''openassessment_criterion_option''))
                    ''data-option'')))
   \<and> (\<exists>payload. \<forall>notificationFired.
         RubricOption_removeHandler notificationFired d this
           = notificationFired ''optionRemove'' payload d)
   \<and> (\<exists>payload. \<forall>notificationFired.
         RubricOption_updateHandler notificationFired d this
           = notificationFired ''optionUpdated'' payload d)
   \<and> (\<exists>payload. \<forall>notificationFired.
         RubricCriterion_removeHandler notificationFired d crit
           = notificationFired ''criterionRemove'' payload d)
   \<and> (\<exists>payload. \<forall>notificationFired.
         RubricCriterion_updateHandler notificationFired d crit
           = notificationFired ''criterionUpdated'' payload d)"
proof -
  define name where "name = createUniqueName d
                      (jq_find d (jq_parent d (ro_element this))
                         (has_class ''openassessment_criterion_option''))
                      ''data-option''"
  define criterionName where
    "criterionName = jq_data d (jq_closest d (ro_element this) (has_class ''openassessment_criterion'')) ''criterion''"
  define d2 where
    "d2 = jq_set_attr (jq_set_attr d (ro_element this) ''data-criterion'' criterionName)
            (ro_element this) ''data-option'' (Some name)"
  define names where
    "names = jq_find d (ro_element this) (has_class ''openassessment_criterion_option_name'')"
  define d3 where "d3 = jq_set_attr d2 names ''value'' (Some name)"
  define fields where "fields = RubricOption_getFieldValues d3 this"
  define payload where
    "payload = [(''criterionName'', of_str criterionName),
            (''criterionLabel'',
               of_str (jq_val d (jq_find d (jq_closest d (ro_element this) (has_class ''openassessment_criterion''))
                                  (has_class ''openassessment_criterion_label'')))),
            (''name'', Str name),
            (''label'', of_str (of_label fields)),
            (''points'', of_num (of_points fields))]"
  have names2: "jq_find d2 (ro_element this) (has_class ''openassessment_criterion_option_name'') = names"
    by (simp add: d2_def names_def)
  have run: "RubricOption_addHandler notificationFired d this = notificationFired ''optionAdd'' payload d3"
    for notificationFired
    unfolding RubricOption_addHandler_def Let_def
    by (simp only: payload_def fields_def d3_def names2 [unfolded d2_def criterionName_def name_def]
        d2_def criterionName_def name_def)
  have pn: "map_of payload ''name'' = Some (Str name)"
    by (simp add: payload_def)
  have len: "length d3 = length d"
    by (simp add: d3_def d2_def)
  have len2: "length d2 = length d"
    by (simp add: d2_def)
  have stamp: "attr_of (d3 ! i) ''data-option'' = Some name"
    if "i \<in> set (ro_element this)" "i < length d" for i
    using that len2
    by (simp add: d3_def nth_jq_set_attr) (simp add: d2_def nth_jq_set_attr)
  have ident: "attr_of (d3 ! i) ''value'' = Some name" if "i \<in> set names" for i
  proof -
    from that have "i < length d" unfolding names_def by (rule jq_find_bound)
    with that len2 show ?thesis
      by (simp add: d3_def nth_jq_set_attr)
  qed
  have add: "\<exists>d' payload.
       (\<forall>notificationFired.
          RubricOption_addHandler notificationFired d this = notificationFired ''optionAdd'' payload d') \<and>
       map_of payload ''name'' = Some (Str name) \<and>
       length d' = length d \<and>
       (\<forall>i \<in> set (ro_element this). i < length d \<longrightarrow> attr_of (d' ! i) ''data-option'' = Some name) \<and>
       (\<forall>i \<in> set names. attr_of (d' ! i) ''value'' = Some name)"
    using run pn len stamp ident by blast
  have r1: "\<exists>payload. \<forall>notificationFired.
         RubricOption_removeHandler notificationFired d this
           = notificationFired ''optionRemove'' payload d"
    unfolding RubricOption_removeHandler_def Let_def by blast
  have r2: "\<exists>payload. \<forall>notificationFired.
         RubricOption_updateHandler notificationFired d this
           = notificationFired ''optionUpdated'' payload d"
    unfolding RubricOption_updateHandler_def Let_def by blast
  have r3: "\<exists>payload. \<forall>notificationFired.
         RubricCriterion_removeHandler notificationFired d crit
           = notificationFired ''criterionRemove'' payload d"
    unfolding RubricCriterion_removeHandler_def Let_def by blast
  have r4: "\<exists>payload. \<forall>notificationFired.
         RubricCriterion_updateHandler notificationFired d crit
           = notificationFired ''criterionUpdated'' payload d"
    unfolding RubricCriterion_updateHandler_def Let_def by blast
  from add r1 r2 r3 r4 show ?thesis
    unfolding name_def names_def by blast
qed

theorem notification_after_mutation_witness:
  "ro_element option_add_item = [4]
   \<and> 4 < length option_add_page
   \<and> jq_find option_add_page (ro_element option_add_item)
        (has_class ''openassessment_criterion_option_name'') = [5]
   \<and> (\<exists>d' payload.
         (\<forall>notificationFired.
            RubricOption_addHandler notificationFired option_add_page option_add_item
              = notificationFired ''optionAdd'' payload d') \<and>
         map_of payload ''name'' = Some (Str ''1'') \<and>
         attr_of (d' ! 4) ''data-option'' = Some ''1'' \<and>
         attr_of (d' ! 5) ''value'' = Some ''1'')"
proof -
  have e: "ro_element option_add_item = [4]"
    by (simp add: option_add_item_def RubricOption_def)
  have l: "4 < length option_add_page"
    by (simp add: option_add_page_def)
  have f: "jq_find option_add_page (ro_element option_add_item)
        (has_class ''openassessment_criterion_option_name'') = [5]"
    by code_simp
  have n: "createUniqueName option_add_page
             (jq_find option_add_page (jq_parent option_add_page (ro_element option_add_item))
                (has_class ''openassessment_criterion_option''))
             ''data-option'' = ''1''"
    by code_simp
  from notification_after_mutation [of option_add_page option_add_item]
  obtain d' payload where
    "\<forall>notificationFired.
        RubricOption_addHandler notificationFired option_add_page option_add_item
          = notificationFired ''optionAdd'' payload d'"
    "map_of payload ''name'' = Some (Str ''1'')"
    "\<forall>i \<in> set (ro_element option_add_item). i < length option_add_page \<longrightarrow>
          attr_of (d' ! i) ''data-option'' = Some ''1''"
    "\<forall>i \<in> set (jq_find option_add_page (ro_element option_add_item)
                    (has_class ''openassessment_criterion_option_name'')).
          attr_of (d' ! i) ''value'' = Some ''1''"
    unfolding n by blast
  with e l f show ?thesis
    by auto
qed

section \<open>AIExample: the label reaches the paired menu item\<close>

lemma dom_update_Nil [simp]: "dom_update d [] f = d"
  by (simp add: dom_update_def map_nth)

lemma jq_children_Nil [simp]: "jq_children d [] = []"
  by (simp add: jq_children_def)

lemma jq_find_Nil [simp]: "jq_find d [] P = []"
  by (simp add: jq_find_def)

lemma jq_set_text_Nil [simp]: "jq_set_text d [] v = d"
  by (simp add: jq_set_text_def split: option.splits)

lemma length_jq_set_text [simp]: "length (jq_set_text d sel v) = length d"
  by (simp add: jq_set_text_def split: option.splits)

lemma set_jq_children:
  "set (jq_children d sel) = {j. \<exists>i \<in> set sel. parent_of d j = Some i}"
  using parent_of_bound by (fastforce simp: jq_children_def)

lemma nth_jq_set_text:
  "i < length d \<Longrightarrow>
     jq_set_text d sel (Some s) ! i =
       (if i \<in> set sel
        then (if \<exists>p \<in> set sel. parent_of d i = Some p
              then (d ! i)\<lparr>el_parent := None, el_text := s\<rparr>
              else (d ! i)\<lparr>el_text := s\<rparr>)
        else (if \<exists>p \<in> set sel. parent_of d i = Some p
              then (d ! i)\<lparr>el_parent := None\<rparr>
              else d ! i))"
  by (simp add: jq_set_text_def nth_dom_update set_jq_children)

lemma jq_find_has_ancestor:
  "j \<in> set (jq_find d ctx P) \<Longrightarrow> \<exists>a \<in> set ctx. a \<in> set (ancestors d j)"
  by (auto simp: jq_find_def)

lemma ancestors_parent:
  "parent_of d j = Some p \<Longrightarrow> ancestors d j = p # ancestors d p"
  by (subst ancestors.simps) simp

lemma AIExample_updateHandler_alt:
  "AIExample_updateHandler d this =
     jq_set_text d (jq_first (jq_find d (matching_menu_items d this) (tag_is ''h2'')))
       (jq_val d (ai_labelSel this))"
  by (simp add: AIExample_updateHandler_def matching_menu_items_def Let_def)

lemma AIExample_updateHandler_frame:
  assumes j: "j < length d"
    and out: "\<not> (\<exists>m \<in> set (matching_menu_items d this). m \<in> set (ancestors d j))"
  shows "AIExample_updateHandler d this ! j = d ! j"
proof (cases "jq_val d (ai_labelSel this)")
  case None
  then show ?thesis
    by (simp add: AIExample_updateHandler_alt jq_set_text_def)
next
  case (Some l)
  let ?heads = "jq_find d (matching_menu_items d this) (tag_is ''h2'')"
  have inside: "\<exists>m \<in> set (matching_menu_items d this). m \<in> set (ancestors d h)"
    if "h \<in> set (jq_first ?heads)" for h
  proof -
    from that have "h \<in> set ?heads"
      by (auto simp: jq_first_def dest: in_set_takeD)
    then show ?thesis by (rule jq_find_has_ancestor)
  qed
  from inside out have 1: "j \<notin> set (jq_first ?heads)" by blast
  have 2: "\<not> (\<exists>p \<in> set (jq_first ?heads). parent_of d j = Some p)"
  proof
    assume "\<exists>p \<in> set (jq_first ?heads). parent_of d j = Some p"
    then obtain p where p: "p \<in> set (jq_first ?heads)" "parent_of d j = Some p" by blast
    from inside [OF p(1)] obtain m where
      "m \<in> set (matching_menu_items d this)" "m \<in> set (ancestors d p)" by blast
    with p(2) out show False
      by (auto simp: ancestors_parent)
  qed
  from j 1 2 Some show ?thesis
    by (simp add: AIExample_updateHandler_alt nth_jq_set_text)
qed

text \<open>
  Claim C7. \<open>AIExample_updateHandler\<close> writes the label into the first heading of
  the menu item in the example's scope that carries the example's identifier, and
  changes nothing else: the heading lies inside a matching menu item, every element
  other than the heading and its former children is as before, and so is every
  element that does not lie inside a matching menu item (the menu items with other
  identifiers and their contents, menu items being siblings). When no menu item
  matches, the page is as before.
\<close>

theorem AIExample_updateHandler_pairs:
  "length (AIExample_updateHandler d this) = length d
   \<and> (\<forall>m \<in> set (matching_menu_items d this).
        m < length d \<and>
        menu_item_of (js_str (jq_attr d (ai_element this) ''data-example'')) (d ! m))
   \<and> (matching_menu_items d this = [] \<longrightarrow> AIExample_updateHandler d this = d)
   \<and> (\<forall>j < length d.
        \<not> (\<exists>m \<in> set (matching_menu_items d this). m \<in> set (ancestors d j)) \<longrightarrow>
        AIExample_updateHandler d this ! j = d ! j)
   \<and> (\<forall>h hs l.
        jq_find d (matching_menu_items d this) (tag_is ''h2'') = h # hs \<and>
        jq_val d (ai_labelSel this) = Some l \<longrightarrow>
        el_text (AIExample_updateHandler d this ! h) = l \<and>
        (\<exists>m \<in> set (matching_menu_items d this). m \<in> set (ancestors d h)) \<and>
        (\<forall>m. matching_menu_items d this = [m] \<longrightarrow> m \<in> set (ancestors d h)) \<and>
        (\<forall>j < length d. j \<noteq> h \<and> parent_of d j \<noteq> Some h \<longrightarrow>
           AIExample_updateHandler d this ! j = d ! j))"
proof -
  have a: "length (AIExample_updateHandler d this) = length d"
    by (simp add: AIExample_updateHandler_alt)
  have id: "\<forall>m \<in> set (matching_menu_items d this).
        m < length d \<and>
        menu_item_of (js_str (jq_attr d (ai_element this) ''data-example'')) (d ! m)"
    by (simp add: matching_menu_items_def jq_find_def)
  have b: "AIExample_updateHandler d this = d" if "matching_menu_items d this = []"
    using that by (simp add: AIExample_updateHandler_alt jq_first_def)
  have c: "\<forall>j < length d.
        \<not> (\<exists>m \<in> set (matching_menu_items d this). m \<in> set (ancestors d j)) \<longrightarrow>
        AIExample_updateHandler d this ! j = d ! j"
    using AIExample_updateHandler_frame by blast
  have e: "el_text (AIExample_updateHandler d this ! h) = l \<and>
        (\<exists>m \<in> set (matching_menu_items d this). m \<in> set (ancestors d h)) \<and>
        (\<forall>m. matching_menu_items d this = [m] \<longrightarrow> m \<in> set (ancestors d h)) \<and>
        (\<forall>j < length d. j \<noteq> h \<and> parent_of d j \<noteq> Some h \<longrightarrow>
           AIExample_updateHandler d this ! j = d ! j)"
    if heads: "jq_find d (matching_menu_items d this) (tag_is ''h2'') = h # hs"
      and label: "jq_val d (ai_labelSel this) = Some l" for h hs l
  proof -
    from heads have hin: "h \<in> set (jq_find d (matching_menu_items d this) (tag_is ''h2''))"
      by simp
    then have hd: "h < length d" by (rule jq_find_bound)
    from hin have anc: "\<exists>m \<in> set (matching_menu_items d this). m \<in> set (ancestors d h)"
      by (rule jq_find_has_ancestor)
    have upd: "AIExample_updateHandler d this = jq_set_text d [h] (Some l)"
      by (simp add: AIExample_updateHandler_alt heads label jq_first_def)
    from hd have "el_text (AIExample_updateHandler d this ! h) = l"
      by (simp add: upd nth_jq_set_text)
    moreover have "\<forall>j < length d. j \<noteq> h \<and> parent_of d j \<noteq> Some h \<longrightarrow>
           AIExample_updateHandler d this ! j = d ! j"
      by (simp add: upd nth_jq_set_text)
    ultimately show ?thesis using anc by auto
  qed
  from a id b c e show ?thesis by blast
qed

theorem AIExample_updateHandler_pairs_witness:
  "matching_menu_items ai_hidden_page ai_item = [4]
   \<and> jq_find ai_hidden_page (matching_menu_items ai_hidden_page ai_item) (tag_is ''h2'') = [5]
   \<and> jq_val ai_hidden_page (ai_labelSel ai_item) = Some ''Foo''
   \<and> el_text (AIExample_updateHandler ai_hidden_page ai_item ! 5) = ''Foo''
   \<and> AIExample_updateHandler ai_hidden_page ai_item ! 2 = ai_hidden_page ! 2
   \<and> AIExample_updateHandler ai_hidden_page ai_item ! 3 = ai_hidden_page ! 3
   \<and> matching_menu_items ai_unpaired_hidden_page ai_unpaired_item = []
   \<and> AIExample_updateHandler ai_unpaired_hidden_page ai_unpaired_item = ai_unpaired_hidden_page"
proof -
  have m: "matching_menu_items ai_hidden_page ai_item = [4]"
    by code_simp
  have h: "jq_find ai_hidden_page (matching_menu_items ai_hidden_page ai_item) (tag_is ''h2'') = [5]"
    by code_simp
  have l: "jq_val ai_hidden_page (ai_labelSel ai_item) = Some ''Foo''"
    by code_simp
  have len: "length ai_hidden_page = 10"
    by code_simp
  have a: "ancestors ai_hidden_page 2 = [1, 0]" "ancestors ai_hidden_page 3 = [2, 1, 0]"
    by code_simp+
  note t = AIExample_updateHandler_pairs [of ai_hidden_page ai_item]
  from t h l have "el_text (AIExample_updateHandler ai_hidden_page ai_item ! 5) = ''Foo''"
    by blast
  moreover from t have "AIExample_updateHandler ai_hidden_page ai_item ! 2 = ai_hidden_page ! 2"
    by (simp add: m a len)
  moreover from t have "AIExample_updateHandler ai_hidden_page ai_item ! 3 = ai_hidden_page ! 3"
    by (simp add: m a len)
  moreover have u: "matching_menu_items ai_unpaired_hidden_page ai_unpaired_item = []"
    by code_simp
  moreover from u AIExample_updateHandler_pairs [of ai_unpaired_hidden_page ai_unpaired_item]
  have "AIExample_updateHandler ai_unpaired_hidden_page ai_unpaired_item = ai_unpaired_hidden_page"
    by blast
  ultimately show ?thesis using m h l by blast
qed
section \<open>The option string\<close>



section \<open>AI examples: the fourth addition repeats an identifier\<close>

lemma add_example_1: "add_example plain_catalog [blank] = [blank, added ''0'']"
  by code_simp

lemma add_example_2:
  "add_example plain_catalog [blank, added ''0''] = [blank, added ''0'', added ''1'']"
  by code_simp

lemma add_example_3:
  "add_example plain_catalog [blank, added ''0'', added ''1'']
     = [blank, added ''0'', added ''1'', added ''2'']"
  by code_simp

lemma add_example_4:
  "add_example plain_catalog [blank, added ''0'', added ''1'', added ''2'']
     = [blank, added ''0'', added ''1'', added ''2'', added ''2'']"
  by code_simp

text \<open>
  Claim C2 states that no two items of a sibling set share an identifier after any
  sequence of additions, for every kind of item. \<open>AIExample_addHandler\<close> passes
  \<open>createUniqueName\<close> the new element alone, so the search looks at the candidates 0
  and 1 only and then returns 2 unchecked: four examples added to an empty container
  get the identifiers 0, 1, 2 and 2.
\<close>

theorem AIExample_addHandler_repeats_identifier:
  "four_examples = [blank, added ''0'', added ''1'', added ''2'', added ''2'']
   \<and> jq_attr four_examples [3] ''data-example'' = Some ''2''
   \<and> jq_attr four_examples [4] ''data-example'' = Some ''2''"
proof -
  have all: "four_examples = [blank, added ''0'', added ''1'', added ''2'', added ''2'']"
    by (simp only: four_examples_def add_example_1 add_example_2 add_example_3 add_example_4)
  show ?thesis
    unfolding all by (simp add: jq_attr_def added_def attr_of_def)
qed

end
